theory Spec2Isabelle
  imports Main "HOL-Library.Sublist" "HOL-Library.Multiset"
begin

section \<open>Strings\<close>

text \<open>
  A JavaScript string is modelled as \<^typ>\<open>string\<close>: the list of the bytes of its UTF-8
  encoding. Every search string of the program (device names, search terms,
  \<open>Out of stock\<close>) is ASCII, and an ASCII byte never occurs inside a multi-byte
  UTF-8 sequence, so a substring test against such a needle gives the same answer on
  the bytes as on the UTF-16 code units JavaScript compares.

  \<open>String.prototype.includes(searchString)\<close>: true iff \<open>searchString\<close> occurs in the
  receiver as a contiguous run, starting at any position; the empty string occurs
  everywhere. The receiver is the first argument.
\<close>

primrec str_includes :: "string \<Rightarrow> string \<Rightarrow> bool" where
  "str_includes [] s = (s = [])"
| "str_includes (c # t) s = (prefix s (c # t) \<or> str_includes t s)"

text \<open>
  \<open>String.prototype.toUpperCase()\<close>, on ASCII: the letters \<open>a\<close>..\<open>z\<close> (codes 97..122)
  move down by 32, every other byte stays. Every string the program upper-cases is a
  \<open>name\<close> property (a catalog name or the name of a built-in function), which is ASCII.
\<close>

definition toUpperCase :: "string \<Rightarrow> string" where
  "toUpperCase s =
     map (\<lambda>c. let n = (of_char c :: nat)
              in if 97 \<le> n \<and> n \<le> 122 then char_of (n - 32) else c) s"

text \<open>\<open>Array.prototype.join(sep)\<close> on an array of strings.\<close>

fun join :: "string \<Rightarrow> string list \<Rightarrow> string" where
  "join sep [] = []"
| "join sep [x] = x"
| "join sep (x # y # zs) = x @ sep @ join sep (y # zs)"

text \<open>
  Conversion of a possibly \<open>undefined\<close> string property to a string, as a template
  literal \<open>${v}\<close> and the argument conversion of \<open>includes\<close> do it: \<open>undefined\<close>
  (\<^const>\<open>None\<close>) becomes the text \<open>undefined\<close>.
\<close>

definition to_str :: "string option \<Rightarrow> string" where
  "to_str v = (case v of None \<Rightarrow> ''undefined'' | Some s \<Rightarrow> s)"

section \<open>Device catalog\<close>

text \<open>
  One entry of \<open>DEVICES\<close> in the multi-device checker: \<open>name\<close>, \<open>priority\<close>, \<open>sound\<close>.
\<close>

record device_spec =
  name :: string
  priority :: int
  sound :: string

text \<open>
  \<open>DEVICES\<close> is an object literal; \<open>Object.entries\<close> and \<open>Object.keys\<close> enumerate its
  own properties in the order they are written, so it is kept as an association list.
\<close>

definition DEVICES :: "(string \<times> device_spec) list" where
  "DEVICES =
     [(''oled-512'', \<lparr>name = ''Steam Deck OLED 512GB'', priority = 1, sound = ''magic''\<rparr>),
      (''oled-1tb'', \<lparr>name = ''Steam Deck OLED 1TB'', priority = 1, sound = ''magic''\<rparr>),
      (''lcd-256'', \<lparr>name = ''Steam Deck LCD 256GB'', priority = 0, sound = ''pushover''\<rparr>),
      (''lcd-512'', \<lparr>name = ''Steam Deck LCD 512GB'', priority = 0, sound = ''pushover''\<rparr>)]"

text \<open>
  The value of the expression \<open>DEVICES[deviceCode]\<close>. Property access on an object
  literal looks at the object's own properties first and then along its prototype
  chain, which for a literal is \<open>Object.prototype\<close>. So the access yields
  \<^item> the catalog entry, for one of the four codes;
  \<^item> a built-in function, for the name of a method of \<open>Object.prototype\<close>; its \<open>name\<close>
    property is the function's name, its \<open>priority\<close> and \<open>sound\<close> are \<open>undefined\<close>;
  \<^item> \<open>Object.prototype\<close> itself, for \<open>__proto__\<close>; all three properties are \<open>undefined\<close>;
  \<^item> \<open>undefined\<close> for every other string.
  \<open>Inherited n\<close> is a value found on the prototype chain, \<open>n\<close> its \<open>name\<close> property.
\<close>

datatype device_ref = Own device_spec | Inherited "string option"

definition Object_prototype :: "(string \<times> string option) list" where
  "Object_prototype =
     [(''constructor'', Some ''Object''),
      (''__defineGetter__'', Some ''__defineGetter__''),
      (''__defineSetter__'', Some ''__defineSetter__''),
      (''hasOwnProperty'', Some ''hasOwnProperty''),
      (''__lookupGetter__'', Some ''__lookupGetter__''),
      (''__lookupSetter__'', Some ''__lookupSetter__''),
      (''isPrototypeOf'', Some ''isPrototypeOf''),
      (''propertyIsEnumerable'', Some ''propertyIsEnumerable''),
      (''toString'', Some ''toString''),
      (''valueOf'', Some ''valueOf''),
      (''__proto__'', None),
      (''toLocaleString'', Some ''toLocaleString'')]"

definition DEVICES_get :: "string \<Rightarrow> device_ref option" where
  "DEVICES_get deviceCode =
     (case map_of DEVICES deviceCode of
        Some d \<Rightarrow> Some (Own d)
      | None \<Rightarrow> map_option Inherited (map_of Object_prototype deviceCode))"

text \<open>The properties \<open>device.name\<close>, \<open>device.priority\<close>, \<open>device.sound\<close>; \<^const>\<open>None\<close> is \<open>undefined\<close>.\<close>

definition device_name :: "device_ref \<Rightarrow> string option" where
  "device_name device = (case device of Own d \<Rightarrow> Some (name d) | Inherited n \<Rightarrow> n)"

definition device_priority :: "device_ref \<Rightarrow> int option" where
  "device_priority device = (case device of Own d \<Rightarrow> Some (priority d) | Inherited n \<Rightarrow> None)"

definition device_sound :: "device_ref \<Rightarrow> string option" where
  "device_sound device = (case device of Own d \<Rightarrow> Some (sound d) | Inherited n \<Rightarrow> None)"

section \<open>Availability checker (name present and not out of stock)\<close>

text \<open>
  \<open>checkDeviceAvailability(cartButtonTexts, device)\<close>: some button text includes
  \<open>device.name\<close> and does not include \<open>Out of stock\<close>.
\<close>

definition checkDeviceAvailability :: "string list \<Rightarrow> device_ref \<Rightarrow> bool" where
  "checkDeviceAvailability cartButtonTexts device =
     list_ex (\<lambda>buttonText.
        str_includes buttonText (to_str (device_name device))
        \<and> \<not> str_includes buttonText ''Out of stock'') cartButtonTexts"

text \<open>
  \<open>checkAllDevicesAvailability(cartButtonTexts)\<close>: walks \<open>Object.entries(DEVICES)\<close> and
  pushes the code of every available device onto an initially empty array.
\<close>

definition checkAllDevicesAvailability :: "string list \<Rightarrow> string list" where
  "checkAllDevicesAvailability cartButtonTexts =
     foldl (\<lambda>availableDevices (deviceCode, device).
              if checkDeviceAvailability cartButtonTexts (Own device)
              then availableDevices @ [deviceCode] else availableDevices)
       [] DEVICES"

section \<open>Availability checker of the single-policy variant with search terms\<close>

text \<open>
  The earlier multi-device variant gives every catalog entry a \<open>searchTerms\<close> array next
  to \<open>name\<close>, \<open>priority\<close> and \<open>sound\<close>.
\<close>

record device_terms = device_spec +
  searchTerms :: "string list"

definition DEVICES_terms :: "(string \<times> device_terms) list" where
  "DEVICES_terms =
     [(''oled-512'', \<lparr>name = ''Steam Deck OLED 512GB'', priority = 1, sound = ''magic'',
         searchTerms = [''Steam Deck 512 GB OLED'', ''Add to cart'']\<rparr>),
      (''oled-1tb'', \<lparr>name = ''Steam Deck OLED 1TB'', priority = 1, sound = ''magic'',
         searchTerms = [''Steam Deck 1 TB OLED'', ''Add to cart'']\<rparr>),
      (''lcd-256'', \<lparr>name = ''Steam Deck LCD 256GB'', priority = 0, sound = ''pushover'',
         searchTerms = [''Steam Deck 256 GB'', ''Add to cart'']\<rparr>),
      (''lcd-512'', \<lparr>name = ''Steam Deck LCD 512GB'', priority = 0, sound = ''pushover'',
         searchTerms = [''Steam Deck 512 GB'', ''Add to cart'']\<rparr>)]"

text \<open>
  Its \<open>checkDeviceAvailability(cartButtonTexts, device)\<close>: some button text includes
  every term of \<open>device.searchTerms\<close>.
\<close>

definition checkDeviceAvailability_terms :: "string list \<Rightarrow> device_terms \<Rightarrow> bool" where
  "checkDeviceAvailability_terms cartButtonTexts device =
     list_ex (\<lambda>buttonText.
        list_all (\<lambda>term. str_includes buttonText term) (searchTerms device)) cartButtonTexts"

section \<open>Effects\<close>

text \<open>
  An \<open>Error\<close> object: its \<open>message\<close> and its \<open>stack\<close>.
\<close>

record js_error =
  message :: string
  stack :: string

text \<open>
  The message object handed to \<open>pushover.send\<close> (\<open>message\<close>, \<open>title\<close>, \<open>priority\<close>,
  \<open>sound\<close>) and the result its callback receives (\<open>status\<close>, \<open>request\<close>).
\<close>

record pushover_message =
  msg_message :: string
  msg_title :: string
  msg_priority :: int
  msg_sound :: string

record pushover_result =
  status :: int
  request :: string

text \<open>
  A Pushover client is what its \<open>send\<close> does with a message: the callback gets an
  error or a result. The parameter \<open>pushover\<close> of the program is such a client or
  \<open>null\<close> (\<^const>\<open>None\<close>).
\<close>

type_synonym pushover = "pushover_message \<Rightarrow> js_error + pushover_result"

text \<open>
  The run is observed through the trace of its effects: the arguments of each
  \<open>console.log\<close> and \<open>console.error\<close>, each call of the browser automation, each message
  handed to \<open>pushover.send\<close>.
\<close>

datatype js_value =
    Str string
  | Num nat
  | Err js_error
  | Texts "string list"

datatype browser_call = Launch | NewPage | SetUserAgent | Goto | Focus | Query | Evaluate | Close

datatype event =
    ConsoleLog "js_value list"
  | ConsoleError "js_value list"
  | Browser browser_call
  | PushoverSend pushover_message

text \<open>
  An asynchronous computation that is awaited: the effects it had, and the error it
  rejected with (\<^const>\<open>Inl\<close>) or the value it resolved to (\<^const>\<open>Inr\<close>).
\<close>

type_synonym 'a io = "event list \<times> (js_error + 'a)"

definition io_return :: "'a \<Rightarrow> 'a io" where
  "io_return x = ([], Inr x)"

definition io_throw :: "js_error \<Rightarrow> 'a io" where
  "io_throw e = ([], Inl e)"

definition io_bind :: "'a io \<Rightarrow> ('a \<Rightarrow> 'b io) \<Rightarrow> 'b io" where
  "io_bind m f =
     (case m of
        (tr, Inl e) \<Rightarrow> (tr, Inl e)
      | (tr, Inr x) \<Rightarrow> (case f x of (tr', r) \<Rightarrow> (tr @ tr', r)))"

definition io_seq :: "unit io \<Rightarrow> 'b io \<Rightarrow> 'b io" where
  "io_seq m k = io_bind m (\<lambda>_. k)"

definition console_log :: "js_value list \<Rightarrow> unit io" where
  "console_log args = ([ConsoleLog args], Inr ())"

definition console_error :: "js_value list \<Rightarrow> unit io" where
  "console_error args = ([ConsoleError args], Inr ())"

text \<open>A browser call that rejects with the given error, or resolves.\<close>

definition browser_call :: "browser_call \<Rightarrow> js_error option \<Rightarrow> unit io" where
  "browser_call c outcome =
     ([Browser c], case outcome of None \<Rightarrow> Inr () | Some e \<Rightarrow> Inl e)"

text \<open>\<open>try { m } catch (error) { h error }\<close>\<close>

definition io_catch :: "'a io \<Rightarrow> (js_error \<Rightarrow> 'a io) \<Rightarrow> 'a io" where
  "io_catch m h =
     (case m of
        (tr, Inl e) \<Rightarrow> (case h e of (tr', r) \<Rightarrow> (tr @ tr', r))
      | (tr, Inr x) \<Rightarrow> (tr, Inr x))"

text \<open>\<open>try { m } finally { ... }\<close> with a \<open>finally\<close> block that has the effects \<open>fin\<close> and completes.\<close>

definition io_finally :: "'a io \<Rightarrow> event list \<Rightarrow> 'a io" where
  "io_finally m fin = (case m of (tr, r) \<Rightarrow> (tr @ fin, r))"

text \<open>
  What the outside world does in one run:
  \<^item> the outcome of each browser-automation step: \<open>puppeteer.launch\<close>, \<open>newPage\<close>,
    \<open>setUserAgent\<close>, \<open>goto\<close>, \<open>focus\<close> reject with an error or resolve; the query
    \<open>page.$$\<close> rejects or resolves to the cart buttons, each of which is what its
    \<open>evaluate\<close> does: reject, or resolve to the text of the ancestor container;
  \<^item> \<open>browser.close()\<close> is taken to resolve;
  \<^item> the clock: the value of \<open>new Date().toISOString()\<close> when the heartbeat message is
    composed, when the error message is composed, and in the entry point's failure
    handler;
  \<^item> the stack recorded in an error the program itself creates;
  \<^item> the environment variables \<open>PUSHOVER_USER\<close> and \<open>PUSHOVER_TOKEN\<close>, and the client
    that \<open>new Push({user, token})\<close> constructs.
\<close>

record world =
  launch :: "js_error option"
  newPage :: "js_error option"
  setUserAgent :: "js_error option"
  goto :: "js_error option"
  focus :: "js_error option"
  query :: "js_error + (js_error + string) list"
  now_check :: string
  now_error :: string
  now_exit :: string
  new_stack :: string
  PUSHOVER_USER :: "string option"
  PUSHOVER_TOKEN :: "string option"
  Push :: "string \<Rightarrow> string \<Rightarrow> pushover"

section \<open>Text constants\<close>

text \<open>The non-ASCII characters of the program's texts, as UTF-8 bytes.\<close>

definition emoji_check :: string where
  "emoji_check = [CHR 0xE2, CHR 0x9C, CHR 0x85]"

definition emoji_warning :: string where
  "emoji_warning = [CHR 0xE2, CHR 0x9A, CHR 0xA0, CHR 0xEF, CHR 0xB8, CHR 0x8F]"

definition emoji_phone :: string where
  "emoji_phone = [CHR 0xF0, CHR 0x9F, CHR 0x93, CHR 0xB1]"

definition emoji_cross :: string where
  "emoji_cross = [CHR 0xE2, CHR 0x9D, CHR 0x8C]"

definition emoji_search :: string where
  "emoji_search = [CHR 0xF0, CHR 0x9F, CHR 0x94, CHR 0x8D]"

definition emoji_party :: string where
  "emoji_party = [CHR 0xF0, CHR 0x9F, CHR 0x8E, CHR 0x89]"

definition emoji_siren :: string where
  "emoji_siren = [CHR 0xF0, CHR 0x9F, CHR 0x9A, CHR 0xA8]"

definition emoji_info :: string where
  "emoji_info = [CHR 0xE2, CHR 0x84, CHR 0xB9, CHR 0xEF, CHR 0xB8, CHR 0x8F]"

definition emoji_package :: string where
  "emoji_package = [CHR 0xF0, CHR 0x9F, CHR 0x93, CHR 0xA6]"

definition emoji_fire :: string where
  "emoji_fire = [CHR 0xF0, CHR 0x9F, CHR 0x94, CHR 0xA5]"

definition emoji_boom :: string where
  "emoji_boom = [CHR 0xF0, CHR 0x9F, CHR 0x92, CHR 0xA5]"

definition bullet :: string where
  "bullet = [CHR 0xE2, CHR 0x80, CHR 0xA2]"

definition store_url :: string where
  "store_url = ''https://store.steampowered.com/sale/steamdeckrefurbished/''"

section \<open>Notifier\<close>

text \<open>
  \<open>initializePushover(userKey, apiToken)\<close>: a client when both credentials are truthy
  (a string is truthy when it is not empty), \<open>null\<close> otherwise; one or two log lines.
\<close>

definition truthy :: "string option \<Rightarrow> bool" where
  "truthy v = (case v of None \<Rightarrow> False | Some s \<Rightarrow> s \<noteq> [])"

definition initializePushover ::
    "world \<Rightarrow> string option \<Rightarrow> string option \<Rightarrow> event list \<times> pushover option" where
  "initializePushover w userKey apiToken =
     (if truthy userKey \<and> truthy apiToken then
        ([ConsoleLog [Str (emoji_check @ '' Pushover notifications enabled'')]],
         Some (Push w (to_str userKey) (to_str apiToken)))
      else
        ([ConsoleLog [Str (emoji_warning
             @ '' Pushover credentials not found - notifications disabled'')],
          ConsoleLog [Str (''   Provide via --pushover-user/--pushover-token or ''
             @ ''PUSHOVER_USER/PUSHOVER_TOKEN env vars'')]],
         None))"

text \<open>
  \<open>sendNotification(pushover, message, title, priority, sound)\<close>. An argument that is
  \<open>undefined\<close> (\<^const>\<open>None\<close>) takes the parameter's default. Without a client the
  function logs one line and returns \<open>undefined\<close>. With a client it builds the object
  \<open>notificationMessage\<close> and hands it to \<open>send\<close> once; it logs and returns the result,
  or logs and rethrows the error.
\<close>

definition notificationMessage ::
    "string \<Rightarrow> string option \<Rightarrow> int option \<Rightarrow> string option \<Rightarrow> pushover_message" where
  "notificationMessage text title0 priority0 sound0 =
     \<lparr>msg_message = text,
      msg_title = (case title0 of None \<Rightarrow> ''Steam Deck Restock Alert'' | Some t \<Rightarrow> t),
      msg_priority = (case priority0 of None \<Rightarrow> 0 | Some p \<Rightarrow> p),
      msg_sound = (case sound0 of None \<Rightarrow> ''pushover'' | Some s \<Rightarrow> s)\<rparr>"

definition sendNotification ::
    "pushover option \<Rightarrow> string \<Rightarrow> string option \<Rightarrow> int option \<Rightarrow> string option
       \<Rightarrow> pushover_result option io" where
  "sendNotification pushover text title0 priority0 sound0 =
     (case pushover of
        None \<Rightarrow>
          ([ConsoleLog [Str (emoji_phone @ '' Would send notification: ''
              @ (case title0 of None \<Rightarrow> ''Steam Deck Restock Alert'' | Some t \<Rightarrow> t)
              @ '' - '' @ text)]], Inr None)
      | Some send \<Rightarrow>
          (case send (notificationMessage text title0 priority0 sound0) of
             Inr result \<Rightarrow>
               ([PushoverSend (notificationMessage text title0 priority0 sound0),
                 ConsoleLog [Str (emoji_check @ '' Pushover notification sent successfully'')]],
                Inr (Some result))
           | Inl error \<Rightarrow>
               ([PushoverSend (notificationMessage text title0 priority0 sound0),
                 ConsoleError [Str (emoji_cross @ '' Failed to send Pushover notification:''),
                               Err error]],
                Inl error)))"

text \<open>
  The single-device script's \<open>sendNotification(pushover, message, title, priority)\<close>:
  the same, with the sound chosen from the priority.
\<close>

definition notificationMessage_single ::
    "string \<Rightarrow> string option \<Rightarrow> int option \<Rightarrow> pushover_message" where
  "notificationMessage_single text title0 priority0 =
     \<lparr>msg_message = text,
      msg_title = (case title0 of None \<Rightarrow> ''Steam Deck Restock Alert'' | Some t \<Rightarrow> t),
      msg_priority = (case priority0 of None \<Rightarrow> 0 | Some p \<Rightarrow> p),
      msg_sound = (if (case priority0 of None \<Rightarrow> 0 | Some p \<Rightarrow> p) > 0
                   then ''magic'' else ''pushover'')\<rparr>"

definition sendNotification_single ::
    "pushover option \<Rightarrow> string \<Rightarrow> string option \<Rightarrow> int option
       \<Rightarrow> pushover_result option io" where
  "sendNotification_single pushover text title0 priority0 =
     (case pushover of
        None \<Rightarrow>
          ([ConsoleLog [Str (emoji_phone @ '' Would send notification: ''
              @ (case title0 of None \<Rightarrow> ''Steam Deck Restock Alert'' | Some t \<Rightarrow> t)
              @ '' - '' @ text)]], Inr None)
      | Some send \<Rightarrow>
          (case send (notificationMessage_single text title0 priority0) of
             Inr result \<Rightarrow>
               ([PushoverSend (notificationMessage_single text title0 priority0),
                 ConsoleLog [Str (emoji_check @ '' Pushover notification sent successfully'')]],
                Inr (Some result))
           | Inl error \<Rightarrow>
               ([PushoverSend (notificationMessage_single text title0 priority0),
                 ConsoleError [Str (emoji_cross @ '' Failed to send Pushover notification:''),
                               Err error]],
                Inl error)))"

text \<open>
  Two readings of a trace: the messages handed to \<open>pushover.send\<close>, and the
  notifications that were only logged because no client is configured (title and
  body as the log line shows them).
\<close>

fun sent :: "event list \<Rightarrow> pushover_message list" where
  "sent [] = []"
| "sent (PushoverSend m # tr) = m # sent tr"
| "sent (ev # tr) = sent tr"

definition would_send :: string where
  "would_send = emoji_phone @ '' Would send notification: ''"

fun logged_only :: "event list \<Rightarrow> string list" where
  "logged_only [] = []"
| "logged_only (ConsoleLog [Str s] # tr) =
     (if prefix would_send s then drop (length would_send) s # logged_only tr
      else logged_only tr)"
| "logged_only (ev # tr) = logged_only tr"

section \<open>Page scraper\<close>

text \<open>
  The loop over the cart buttons: each \<open>evaluate\<close> resolves to a text that is pushed
  onto \<open>cartButtonTexts\<close>, or rejects and ends the loop.
\<close>

fun evaluate_all :: "(js_error + string) list \<Rightarrow> string list \<Rightarrow> string list io" where
  "evaluate_all [] cartButtonTexts = ([], Inr cartButtonTexts)"
| "evaluate_all (cartButton # cartButtons) cartButtonTexts =
     (case cartButton of
        Inl e \<Rightarrow> ([Browser Evaluate], Inl e)
      | Inr text \<Rightarrow>
          (case evaluate_all cartButtons (cartButtonTexts @ [text]) of
             (tr, r) \<Rightarrow> (Browser Evaluate # tr, r)))"

text \<open>
  The first part of the \<open>try\<close> block of \<open>checkSteamDeckStock\<close>, from the start of the
  check to the log of the number of cart buttons: the scraper.
\<close>

definition scrape :: "world \<Rightarrow> string list io" where
  "scrape w =
     io_seq (console_log [Str ''Starting Steam Deck stock check...''])
    (io_seq (browser_call Launch (launch w))
    (io_seq (browser_call NewPage (newPage w))
    (io_seq (browser_call SetUserAgent (setUserAgent w))
    (io_seq (console_log [Str ''Navigating to Steam Deck refurbished page...''])
    (io_seq (browser_call Goto (goto w))
    (io_seq (console_log [Str ''Checking cart buttons...''])
    (io_seq (browser_call Focus (focus w))
    (io_bind ([Browser Query], query w) (\<lambda>cartButtons.
     io_bind (evaluate_all cartButtons []) (\<lambda>cartButtonTexts.
     io_seq (console_log [Str ''Found cart buttons:'', Num (length cartButtonTexts)])
       (io_return cartButtonTexts)))))))))))"

section \<open>Run orchestrator\<close>

text \<open>
  \<open>availableDevices.map((code) => DEVICES[code].name)\<close>: reading \<open>name\<close> of \<open>undefined\<close>
  throws a \<open>TypeError\<close>.
\<close>

definition type_error :: "world \<Rightarrow> string \<Rightarrow> js_error" where
  "type_error w property =
     \<lparr>message = ''Cannot read properties of undefined (reading '' @ [CHR 0x27] @ property
        @ [CHR 0x27] @ '')'', stack = new_stack w\<rparr>"

fun device_names :: "world \<Rightarrow> string list \<Rightarrow> string option list io" where
  "device_names w [] = ([], Inr [])"
| "device_names w (code # codes) =
     (case DEVICES_get code of
        None \<Rightarrow> io_throw (type_error w ''name'')
      | Some d \<Rightarrow> io_bind (device_names w codes) (\<lambda>ns. io_return (device_name d # ns)))"

text \<open>The texts of the four notifications of \<open>checkSteamDeckStock\<close>.\<close>

definition in_stock_message :: "string \<Rightarrow> string" where
  "in_stock_message n =
     emoji_party @ '' '' @ n @ '' is now available for purchase!\<newline>\<newline>Check: '' @ store_url"

definition in_stock_title :: "string \<Rightarrow> string" where
  "in_stock_title n = emoji_siren @ '' '' @ toUpperCase n @ '' IN STOCK! '' @ emoji_siren"

definition other_devices_message :: "string \<Rightarrow> string option list \<Rightarrow> string" where
  "other_devices_message n otherDeviceNames =
     emoji_info @ '' Your monitored device ('' @ n
       @ '') is not available, but other models are in stock:\<newline>\<newline>''
       @ join ''\<newline>'' (map (\<lambda>other. bullet @ '' '' @ to_str other) otherDeviceNames)
       @ ''\<newline>\<newline>Check: '' @ store_url"

definition other_devices_title :: string where
  "other_devices_title = emoji_package @ '' Other Steam Decks Available''"

definition heartbeat_message :: "world \<Rightarrow> string \<Rightarrow> string" where
  "heartbeat_message w n =
     emoji_check @ '' Stock check completed successfully for '' @ n
       @ ''.\<newline>\<newline>No Steam Deck models available at this time.\<newline>\<newline>Checked at: ''
       @ now_check w"

definition heartbeat_title :: string where
  "heartbeat_title = emoji_check @ '' Steam Deck Check Complete''"

definition error_message :: "world \<Rightarrow> string \<Rightarrow> js_error \<Rightarrow> string" where
  "error_message w n error =
     emoji_siren @ '' Steam Deck checker encountered an error:\<newline>\<newline>'' @ message error
       @ ''\<newline>\<newline>Device: '' @ n @ ''\<newline>Time: '' @ now_error w"

definition error_title :: string where
  "error_title = emoji_fire @ '' Steam Deck Checker Error''"

text \<open>
  The second part of the \<open>try\<close> block: classification, the logs of the result, and the
  decision which notification to send. In \<open>join\<close>, an \<open>undefined\<close> element counts as the
  empty string. The title of the in-stock message calls \<open>toUpperCase\<close> on
  \<open>device.name\<close>, which throws a \<open>TypeError\<close> when the name is \<open>undefined\<close>.
\<close>

definition decide ::
    "world \<Rightarrow> device_ref \<Rightarrow> pushover option \<Rightarrow> bool \<Rightarrow> string list \<Rightarrow> unit io" where
  "decide w device pushover notifySuccess cartButtonTexts =
     (let isDeviceAvailable = checkDeviceAvailability cartButtonTexts device;
          availableDevices = checkAllDevicesAvailability cartButtonTexts;
          n = to_str (device_name device)
      in
        io_seq (console_log [Texts cartButtonTexts])
       (io_seq (console_log
          [Str (n @ '' Available: '' @ (if isDeviceAvailable then ''true'' else ''false''))])
       (io_seq (console_log
          [Str (''All available devices: ''
             @ (if join '', '' availableDevices = [] then ''none''
                else join '', '' availableDevices))])
       (if isDeviceAvailable then
          io_seq (console_log [Str (emoji_party @ '' '' @ n @ '' is in stock!'')])
            (case device_name device of
               None \<Rightarrow> io_throw (type_error w ''toUpperCase'')
             | Some n' \<Rightarrow>
                 io_bind (sendNotification pushover (in_stock_message n)
                            (Some (in_stock_title n'))
                            (device_priority device) (device_sound device))
                   (\<lambda>_. io_return ()))
        else
          io_seq (console_log [Str (emoji_cross @ '' No '' @ n @ '' in stock.'')])
            (if length availableDevices > 0 then
               io_bind (device_names w availableDevices) (\<lambda>otherDeviceNames.
               io_seq (console_log
                 [Str (emoji_info @ '' Other Steam Deck models available: ''
                    @ join '', '' (map (\<lambda>other. case other of None \<Rightarrow> [] | Some s \<Rightarrow> s)
                        otherDeviceNames))])
              (io_bind (sendNotification pushover
                          (other_devices_message n otherDeviceNames)
                          (Some other_devices_title) (Some 0) (Some ''pushover''))
                 (\<lambda>_. io_return ())))
             else if notifySuccess then
               io_bind (sendNotification pushover (heartbeat_message w n)
                          (Some heartbeat_title) (Some 0) (Some ''pushover''))
                 (\<lambda>_. io_return ())
             else io_return ())))))"

text \<open>
  The \<open>catch\<close> block: log the error, await an error notification inside its own
  \<open>try\<close>/\<open>catch\<close> that logs either outcome, and rethrow the error that was caught.
\<close>

definition on_error :: "world \<Rightarrow> device_ref \<Rightarrow> pushover option \<Rightarrow> js_error \<Rightarrow> unit io" where
  "on_error w device pushover error =
     io_seq (console_error [Str (emoji_cross @ '' Error occurred:''), Str (message error)])
    (io_seq
       (io_catch
          (io_bind (sendNotification pushover
                      (error_message w (to_str (device_name device)) error)
                      (Some error_title) (Some 1) (Some ''siren''))
             (\<lambda>_. console_log [Str (emoji_check @ '' Error notification sent successfully'')]))
          (\<lambda>notificationError.
             console_error [Str (emoji_cross @ '' Failed to send error notification:''),
                            Str (message notificationError)]))
       (io_throw error))"

text \<open>
  \<open>checkSteamDeckStock(deviceCode, pushover, notifySuccess)\<close>. The device is looked up
  first; a falsy result throws before the \<open>try\<close> statement is entered. The \<open>finally\<close>
  block closes the browser when \<open>puppeteer.launch\<close> had resolved. A call that leaves
  \<open>deviceCode\<close> out is the call with \<open>oled-512\<close>, one that leaves \<open>notifySuccess\<close> out the
  call with \<open>false\<close>.
\<close>

definition checkSteamDeckStock ::
    "world \<Rightarrow> string \<Rightarrow> pushover option \<Rightarrow> bool \<Rightarrow> unit io" where
  "checkSteamDeckStock w deviceCode pushover notifySuccess =
     (case DEVICES_get deviceCode of
        None \<Rightarrow>
          io_throw
            \<lparr>message = ''Unknown device code: '' @ deviceCode @ ''. Available: ''
               @ join '', '' (map fst DEVICES),
             stack = new_stack w\<rparr>
      | Some device \<Rightarrow>
          io_seq (console_log
            [Str (emoji_search @ '' Monitoring '' @ to_str (device_name device) @ ''...'')])
            (io_finally
               (io_catch
                  (io_bind (scrape w) (decide w device pushover notifySuccess))
                  (on_error w device pushover))
               (if launch w = None then [Browser Close] else [])))"

section \<open>Entry point\<close>

text \<open>
  The options as \<open>yargs\<close> has parsed them; the parsing itself is not modelled.
\<close>

record argv =
  device :: string
  pushoverUser :: "string option"
  pushoverToken :: "string option"
  notifySuccess :: bool
  listDevices :: bool

text \<open>\<open>a || b\<close> on possibly \<open>undefined\<close> strings, and \<open>String.prototype.padEnd\<close> with spaces.\<close>

definition js_or :: "string option \<Rightarrow> string option \<Rightarrow> string option" where
  "js_or a b = (if truthy a then a else b)"

definition padEnd :: "string \<Rightarrow> nat \<Rightarrow> string" where
  "padEnd s n = s @ replicate (n - length s) CHR '' ''"

definition critical_message :: "world \<Rightarrow> js_error \<Rightarrow> string" where
  "critical_message w error =
     emoji_boom @ '' Critical failure in Steam Deck checker:\<newline>\<newline>'' @ message error
       @ ''\<newline>\<newline>Stack trace:\<newline>'' @ stack error @ ''\<newline>\<newline>Time: '' @ now_exit w"

definition critical_title :: string where
  "critical_title = emoji_siren @ '' CRITICAL: Steam Deck Checker Failed''"

text \<open>
  The script run directly: the trace and the exit code. \<open>--list-devices\<close> prints the
  catalog and exits 0. Otherwise the credentials are resolved, the client is
  initialised and \<open>checkSteamDeckStock\<close> is awaited: exit code 0 when it resolves; when
  it rejects, a further notification is attempted if there is a client, and the exit
  code is 1.
\<close>

definition main :: "world \<Rightarrow> argv \<Rightarrow> event list \<times> nat" where
  "main w args =
     (if listDevices args then
        (ConsoleLog [Str (emoji_phone @ '' Available Steam Deck devices:'')]
           # map (\<lambda>(code, d). ConsoleLog [Str (''  '' @ padEnd code 10 @ '' - '' @ name d)])
               DEVICES,
         0)
      else
        (let userKey = js_or (pushoverUser args) (PUSHOVER_USER w);
             apiToken = js_or (pushoverToken args) (PUSHOVER_TOKEN w)
         in case initializePushover w userKey apiToken of
              (tr_init, pushover) \<Rightarrow>
                (case checkSteamDeckStock w (device args) pushover (notifySuccess args) of
                   (tr, Inr _) \<Rightarrow>
                     (tr_init @ tr
                        @ [ConsoleLog [Str (emoji_check
                             @ '' Stock check completed successfully'')]],
                      0)
                 | (tr, Inl error) \<Rightarrow>
                     (tr_init @ tr
                        @ [ConsoleError [Str (emoji_boom @ '' Stock check failed:''),
                                         Str (message error)]]
                        @ (if pushover \<noteq> None then
                             fst (io_catch
                               (io_bind (sendNotification pushover (critical_message w error)
                                           (Some critical_title) (Some 2) (Some ''siren''))
                                  (\<lambda>_. console_log [Str (emoji_check
                                          @ '' Critical error notification sent'')]))
                               (\<lambda>notificationError.
                                  console_error
                                    [Str (emoji_cross
                                       @ '' Failed to send critical error notification:''),
                                     Str (message notificationError)]))
                           else []),
                      1))))"

section \<open>Example runs\<close>

text \<open>
  Concrete values for the examples below: a world in which every browser step resolves
  and the page shows one cart button per given container text, with no credentials in
  the environment; a client whose \<open>send\<close> succeeds and one whose \<open>send\<close> fails; the error of a
  navigation timeout.
\<close>

definition world_showing :: "string list \<Rightarrow> world" where
  "world_showing cartTexts =
     \<lparr>launch = None, newPage = None, setUserAgent = None, goto = None, focus = None,
      query = Inr (map Inr cartTexts),
      now_check = ''2025-01-01T00:00:00.000Z'', now_error = ''2025-01-01T00:00:01.000Z'',
      now_exit = ''2025-01-01T00:00:02.000Z'', new_stack = ''Error'',
      PUSHOVER_USER = None, PUSHOVER_TOKEN = None,
      Push = (\<lambda>user token m. Inr \<lparr>status = 1, request = ''r''\<rparr>)\<rparr>"

definition delivers :: pushover where
  "delivers = (\<lambda>m. Inr \<lparr>status = 1, request = ''r''\<rparr>)"

definition navigation_timeout :: js_error where
  "navigation_timeout =
     \<lparr>message = ''Navigation timeout of 30000 ms exceeded'', stack = ''TimeoutError''\<rparr>"

definition refuses :: pushover where
  "refuses = (\<lambda>m. Inl \<lparr>message = ''connect ETIMEDOUT'', stack = ''Error''\<rparr>)"

section \<open>Properties of the checker\<close>

lemma str_includes_sublist: "str_includes t s \<longleftrightarrow> sublist s t"
  by (induction t) (auto simp: sublist_Cons_right)

lemma checkDeviceAvailability_Own:
  "checkDeviceAvailability texts (Own d) \<longleftrightarrow>
     (\<exists>t \<in> set texts. sublist (name d) t \<and> \<not> sublist ''Out of stock'' t)"
  by (simp add: checkDeviceAvailability_def device_name_def to_str_def list_ex_iff
      str_includes_sublist)

lemma push_filter:
  "foldl (\<lambda>acc (k, v). if P v then acc @ [k] else acc) acc kvs
     = acc @ map fst (filter (\<lambda>(k, v). P v) kvs)"
  by (induction kvs arbitrary: acc) auto

lemma checkAllDevicesAvailability_filter:
  "checkAllDevicesAvailability texts
     = map fst (filter (\<lambda>(code, d). checkDeviceAvailability texts (Own d)) DEVICES)"
  unfolding checkAllDevicesAvailability_def
  using push_filter [of "\<lambda>d. checkDeviceAvailability texts (Own d)" "[]" DEVICES]
  by simp

lemma distinct_DEVICES: "distinct (map fst DEVICES)"
  by (simp add: DEVICES_def)

lemma mem_checkAllDevicesAvailability:
  assumes "(code, d) \<in> set DEVICES"
  shows "code \<in> set (checkAllDevicesAvailability texts)
           \<longleftrightarrow> checkDeviceAvailability texts (Own d)"
proof
  assume "code \<in> set (checkAllDevicesAvailability texts)"
  then obtain d' where d': "(code, d') \<in> set DEVICES"
    and av: "checkDeviceAvailability texts (Own d')"
    by (auto simp: checkAllDevicesAvailability_filter)
  from distinct_DEVICES assms d' have "d' = d"
    by (meson eq_key_imp_eq_value)
  with av show "checkDeviceAvailability texts (Own d)" by simp
next
  assume "checkDeviceAvailability texts (Own d)"
  with assms show "code \<in> set (checkAllDevicesAvailability texts)"
    by (force simp: checkAllDevicesAvailability_filter)
qed

lemma checkAllDevicesAvailability_keys:
  "set (checkAllDevicesAvailability texts) \<subseteq> fst ` set DEVICES"
  by (auto simp: checkAllDevicesAvailability_filter)

lemma checkDeviceAvailability_set:
  "set texts = set texts' \<Longrightarrow>
     checkDeviceAvailability texts dev = checkDeviceAvailability texts' dev"
  by (simp add: checkDeviceAvailability_def list_ex_iff)

lemma checkDeviceAvailability_mono:
  "set texts \<subseteq> set texts' \<Longrightarrow> checkDeviceAvailability texts dev
     \<Longrightarrow> checkDeviceAvailability texts' dev"
  by (auto simp: checkDeviceAvailability_def list_ex_iff)

text \<open>
  C1. For every sequence of cart-button texts and every device of the catalog, the
  device's code is in the result of \<open>checkAllDevicesAvailability\<close> if and only if at
  least one text contains the device's display name as a substring and does not
  contain the substring \<open>Out of stock\<close>. On the empty sequence no device is available
  and the result is the empty array.
\<close>

theorem checkAllDevicesAvailability_correct:
  "(code, d) \<in> set DEVICES \<Longrightarrow>
     (code \<in> set (checkAllDevicesAvailability texts)
        \<longleftrightarrow> (\<exists>t \<in> set texts. sublist (name d) t \<and> \<not> sublist ''Out of stock'' t))
     \<and> \<not> checkDeviceAvailability [] (Own d)
     \<and> checkAllDevicesAvailability [] = []"
  using mem_checkAllDevicesAvailability [of code d texts]
  by (simp add: checkDeviceAvailability_Own checkAllDevicesAvailability_filter)

theorem checkAllDevicesAvailability_correct_witness:
  "(''lcd-256'', \<lparr>name = ''Steam Deck LCD 256GB'', priority = 0, sound = ''pushover''\<rparr>)
      \<in> set DEVICES
   \<and> ''lcd-256'' \<in> set (checkAllDevicesAvailability
        [''Steam Deck LCD 512GB Out of stock'', ''Steam Deck LCD 256GB Add to cart''])
   \<and> (\<exists>t \<in> set [''Steam Deck LCD 512GB Out of stock'', ''Steam Deck LCD 256GB Add to cart''].
         sublist ''Steam Deck LCD 256GB'' t \<and> \<not> sublist ''Out of stock'' t)
   \<and> checkAllDevicesAvailability [] = []"
proof -
  let ?d = "\<lparr>name = ''Steam Deck LCD 256GB'', priority = 0, sound = ''pushover''\<rparr>"
  let ?texts = "[''Steam Deck LCD 512GB Out of stock'', ''Steam Deck LCD 256GB Add to cart'']"
  have h: "(''lcd-256'', ?d) \<in> set DEVICES"
    by (simp add: DEVICES_def)
  have av: "''lcd-256'' \<in> set (checkAllDevicesAvailability ?texts)"
    by (simp add: checkAllDevicesAvailability_def DEVICES_def checkDeviceAvailability_def
        device_name_def to_str_def)
  from checkAllDevicesAvailability_correct [OF h, of ?texts] h av show ?thesis
    by simp
qed

text \<open>
  C9. The classification does not depend on the order of the texts: a permutation of
  the sequence (the same texts with the same multiplicities) gives the same result.
  The checker is a function of its argument and of the constant catalog only, so the
  same input gives the same output on every call; this is the case \<open>texts' = texts\<close>.
\<close>

theorem checkAllDevicesAvailability_permutation:
  "mset texts = mset texts' \<Longrightarrow>
     checkAllDevicesAvailability texts = checkAllDevicesAvailability texts'"
proof -
  assume "mset texts = mset texts'"
  then have "set texts = set texts'"
    by (rule mset_eq_setD)
  then have "\<And>dev. checkDeviceAvailability texts dev
      = checkDeviceAvailability texts' dev"
    by (rule checkDeviceAvailability_set)
  then show ?thesis
    by (simp add: checkAllDevicesAvailability_filter)
qed

theorem checkAllDevicesAvailability_permutation_witness:
  "mset [''Steam Deck LCD 512GB Out of stock'', ''Steam Deck LCD 256GB Add to cart'']
     = mset [''Steam Deck LCD 256GB Add to cart'', ''Steam Deck LCD 512GB Out of stock'']
   \<and> checkAllDevicesAvailability
        [''Steam Deck LCD 512GB Out of stock'', ''Steam Deck LCD 256GB Add to cart'']
     = checkAllDevicesAvailability
        [''Steam Deck LCD 256GB Add to cart'', ''Steam Deck LCD 512GB Out of stock'']
   \<and> checkAllDevicesAvailability
        [''Steam Deck LCD 256GB Add to cart'', ''Steam Deck LCD 512GB Out of stock'']
     = [''lcd-256'']"
proof -
  let ?a = "''Steam Deck LCD 512GB Out of stock''"
  let ?b = "''Steam Deck LCD 256GB Add to cart''"
  have h: "mset [?a, ?b] = mset [?b, ?a]"
    by (simp add: add.commute)
  have v: "checkAllDevicesAvailability [?b, ?a] = [''lcd-256'']"
    by (simp add: checkAllDevicesAvailability_def DEVICES_def checkDeviceAvailability_def
        device_name_def to_str_def)
  from checkAllDevicesAvailability_permutation [OF h] h v show ?thesis
    by simp
qed

text \<open>
  C10. The classification is monotone in the text sequence: every device code in the
  result for \<open>texts\<close> is also in the result for \<open>texts\<close> extended by further texts.
\<close>

theorem checkAllDevicesAvailability_monotone:
  "code \<in> set (checkAllDevicesAvailability texts) \<Longrightarrow>
     code \<in> set (checkAllDevicesAvailability (texts @ extra))"
proof -
  assume "code \<in> set (checkAllDevicesAvailability texts)"
  then obtain d where d: "(code, d) \<in> set DEVICES"
    and av: "checkDeviceAvailability texts (Own d)"
    by (auto simp: checkAllDevicesAvailability_filter)
  have "set texts \<subseteq> set (texts @ extra)" by simp
  from checkDeviceAvailability_mono [OF this av]
  have "checkDeviceAvailability (texts @ extra) (Own d)" .
  with d show ?thesis
    by (simp add: mem_checkAllDevicesAvailability)
qed

theorem checkAllDevicesAvailability_monotone_witness:
  "''lcd-256'' \<in> set (checkAllDevicesAvailability [''Steam Deck LCD 256GB Add to cart''])
   \<and> ''lcd-256'' \<in> set (checkAllDevicesAvailability
        ([''Steam Deck LCD 256GB Add to cart''] @ [''Steam Deck LCD 256GB Out of stock'']))"
proof -
  have h: "''lcd-256'' \<in> set (checkAllDevicesAvailability [''Steam Deck LCD 256GB Add to cart''])"
    by (simp add: checkAllDevicesAvailability_def DEVICES_def checkDeviceAvailability_def
        device_name_def to_str_def)
  from checkAllDevicesAvailability_monotone [OF h] h show ?thesis
    by simp
qed

section \<open>Properties of the effects\<close>

lemma io_bind_Inl: "io_bind (tr, Inl e) f = (tr, Inl e)"
  by (simp add: io_bind_def)

lemma io_bind_Inr: "io_bind (tr, Inr x) f = (tr @ fst (f x), snd (f x))"
  by (simp add: io_bind_def split: prod.splits)

lemma io_seq_Inl: "io_seq (tr, Inl e) k = (tr, Inl e)"
  by (simp add: io_seq_def io_bind_Inl)

lemma io_seq_Inr: "io_seq (tr, Inr x) k = (tr @ fst k, snd k)"
  by (simp add: io_seq_def io_bind_Inr)

lemma io_seq_log: "io_seq (console_log args) k = (ConsoleLog args # fst k, snd k)"
  by (simp add: console_log_def io_seq_Inr)

lemma io_seq_error_log: "io_seq (console_error args) k = (ConsoleError args # fst k, snd k)"
  by (simp add: console_error_def io_seq_Inr)

lemma io_catch_Inl: "io_catch (tr, Inl e) h = (tr @ fst (h e), snd (h e))"
  by (simp add: io_catch_def split: prod.splits)

lemma io_catch_Inr: "io_catch (tr, Inr x) h = (tr, Inr x)"
  by (simp add: io_catch_def)

lemma io_finally_pair: "io_finally (tr, r) fin = (tr @ fin, r)"
  by (simp add: io_finally_def)

lemma sent_append: "sent (tr @ tr') = sent tr @ sent tr'"
  by (induction tr rule: sent.induct) simp_all

lemma logged_only_append: "logged_only (tr @ tr') = logged_only tr @ logged_only tr'"
  by (induction tr rule: logged_only.induct) simp_all

lemma evaluate_all_quiet:
  "evaluate_all bs acc = (tr, r) \<Longrightarrow> sent tr = [] \<and> logged_only tr = []"
proof (induction bs arbitrary: acc tr r)
  case Nil
  then show ?case by simp
next
  case (Cons b bs)
  show ?case
  proof (cases b)
    case (Inl e)
    with Cons.prems show ?thesis by auto
  next
    case (Inr t)
    obtain tr' r' where rec: "evaluate_all bs (acc @ [t]) = (tr', r')"
      by (cases "evaluate_all bs (acc @ [t])")
    from Cons.IH [OF rec] Cons.prems Inr rec show ?thesis by auto
  qed
qed

lemma not_would_send:
  "\<not> prefix would_send (CHR ''S'' # s)" "\<not> prefix would_send (CHR ''N'' # s)"
  "\<not> prefix would_send (CHR ''C'' # s)" "\<not> prefix would_send (CHR ''A'' # s)"
  "\<not> prefix would_send (emoji_check @ s)" "\<not> prefix would_send (emoji_cross @ s)"
  "\<not> prefix would_send (emoji_search @ s)" "\<not> prefix would_send (emoji_party @ s)"
  "\<not> prefix would_send (emoji_info @ s)" "\<not> prefix would_send (emoji_warning @ s)"
  "\<not> prefix would_send (emoji_boom @ s)" "\<not> prefix would_send (CHR '' '' # s)"
  by (simp_all add: would_send_def emoji_phone_def emoji_check_def emoji_cross_def
      emoji_search_def emoji_party_def emoji_info_def emoji_warning_def emoji_boom_def)

lemma scrape_cases:
  obtains (fail) tr e where "scrape w = (tr, Inl e)" "sent tr = []" "logged_only tr = []"
      "Browser Launch \<in> set tr"
  | (ok) tr texts where "scrape w = (tr, Inr texts)" "sent tr = []" "logged_only tr = []"
      "Browser Launch \<in> set tr" "launch w = None"
proof -
  obtain tr r where e: "evaluate_all (case query w of Inr bs \<Rightarrow> bs | Inl _ \<Rightarrow> []) [] = (tr, r)"
    by (cases "evaluate_all (case query w of Inr bs \<Rightarrow> bs | Inl _ \<Rightarrow> []) []")
  from evaluate_all_quiet [OF e]
  have q: "sent tr = []" "logged_only tr = []" by simp_all
  show thesis
    using e q
    apply (cases "launch w"; cases "newPage w"; cases "setUserAgent w"; cases "goto w";
        cases "focus w"; cases "query w"; cases r)
    apply (simp_all add: scrape_def io_seq_log io_seq_Inl io_seq_Inr io_bind_Inl io_bind_Inr
        browser_call_def io_return_def console_log_def sent_append logged_only_append
        not_would_send fail ok)
    done
qed


lemma sendNotification_None:
  "sendNotification None body title0 priority0 sound0 =
     ([ConsoleLog [Str (would_send @ msg_title (notificationMessage body title0 priority0 sound0)
         @ '' - '' @ body)]], Inr None)"
  by (simp add: sendNotification_def would_send_def notificationMessage_def)

lemma sendNotification_Some:
  "sendNotification (Some send) body title0 priority0 sound0 =
     (case send (notificationMessage body title0 priority0 sound0) of
        Inr result \<Rightarrow>
          ([PushoverSend (notificationMessage body title0 priority0 sound0),
            ConsoleLog [Str (emoji_check @ '' Pushover notification sent successfully'')]],
           Inr (Some result))
      | Inl error \<Rightarrow>
          ([PushoverSend (notificationMessage body title0 priority0 sound0),
            ConsoleError [Str (emoji_cross @ '' Failed to send Pushover notification:''),
                          Err error]],
           Inl error))"
  by (simp add: sendNotification_def)

lemma logged_only_would_send:
  "logged_only (ConsoleLog [Str (would_send @ s)] # tr) = s # logged_only tr"
  by simp

lemma map_of_DEVICES: "(code, d) \<in> set DEVICES \<Longrightarrow> map_of DEVICES code = Some d"
  using distinct_DEVICES by (rule map_of_is_SomeI)

lemma DEVICES_get_Own: "(code, d) \<in> set DEVICES \<Longrightarrow> DEVICES_get code = Some (Own d)"
  by (simp add: DEVICES_get_def map_of_DEVICES)

lemma device_names_entries:
  "set kvs \<subseteq> set DEVICES \<Longrightarrow>
     device_names w (map fst kvs) = ([], Inr (map (\<lambda>(code, d). Some (name d)) kvs))"
proof (induction kvs)
  case Nil
  then show ?case by simp
next
  case (Cons kv kvs)
  obtain code d where kv: "kv = (code, d)" by (cases kv)
  with Cons.prems have "DEVICES_get code = Some (Own d)"
    by (simp add: DEVICES_get_Own)
  with Cons kv show ?case
    by (simp add: io_bind_Inr io_return_def device_name_def)
qed

lemma device_names_available:
  "device_names w (checkAllDevicesAvailability texts)
     = ([], Inr (map (\<lambda>(code, d). Some (name d))
          (filter (\<lambda>(code, d). checkDeviceAvailability texts (Own d)) DEVICES)))"
  unfolding checkAllDevicesAvailability_filter
  by (rule device_names_entries) auto

lemma sublist_mid: "sublist n (a @ n @ b)"
  unfolding sublist_def by blast

lemma sublist_embed: "sublist n m \<Longrightarrow> sublist n (a @ m @ b)"
proof -
  assume "sublist n m"
  then obtain ps ss where "m = ps @ n @ ss"
    unfolding sublist_def by blast
  then have "a @ m @ b = (a @ ps) @ n @ (ss @ b)" by simp
  then show ?thesis
    unfolding sublist_def by blast
qed

lemma sublist_join:
  "x \<in> set xs \<Longrightarrow> sublist n (f x) \<Longrightarrow> sublist n (join sep (map f xs))"
proof (induction xs)
  case Nil
  then show ?case by simp
next
  case (Cons y ys)
  show ?case
  proof (cases ys)
    case Nil
    with Cons.prems show ?thesis by simp
  next
    case (Cons z zs)
    show ?thesis
    proof (cases "x = y")
      case True
      with Cons.prems have "sublist n (f y)" by simp
      from sublist_embed [OF this, of "[]" "sep @ join sep (map f (z # zs))"]
      show ?thesis using Cons by simp
    next
      case False
      with Cons.prems have "x \<in> set ys" by simp
      from Cons.IH [OF this Cons.prems(2)]
      have "sublist n (join sep (map f ys))" .
      from sublist_embed [OF this, of "f y @ sep" "[]"]
      show ?thesis using Cons by simp
    qed
  qed
qed

lemma other_devices_message_lists:
  assumes "Some n \<in> set others"
  shows "sublist n (other_devices_message target others)"
proof -
  have "sublist n (bullet @ '' '' @ to_str (Some n))"
    using sublist_mid [of n "bullet @ '' ''" "[]"] by (simp add: to_str_def)
  from sublist_join [OF assms, of n "\<lambda>other. bullet @ '' '' @ to_str other", OF this]
  have mid: "sublist n (join ''\<newline>'' (map (\<lambda>other. bullet @ '' '' @ to_str other) others))" .
  have eq: "other_devices_message target others =
      (emoji_info @ '' Your monitored device ('' @ target
         @ '') is not available, but other models are in stock:\<newline>\<newline>'')
      @ join ''\<newline>'' (map (\<lambda>other. bullet @ '' '' @ to_str other) others)
      @ (''\<newline>\<newline>Check: '' @ store_url)"
    by (simp add: other_devices_message_def)
  show ?thesis
    unfolding eq using mid by (rule sublist_embed)
qed


lemma on_error_None:
  "on_error w dev None e =
     ([ConsoleError [Str (emoji_cross @ '' Error occurred:''), Str (message e)],
       ConsoleLog [Str (would_send @ error_title @ '' - ''
          @ error_message w (to_str (device_name dev)) e)],
       ConsoleLog [Str (emoji_check @ '' Error notification sent successfully'')]],
      Inl e)"
  by (simp add: on_error_def sendNotification_None io_seq_error_log io_bind_Inr io_catch_Inr
      io_seq_Inr io_throw_def console_log_def notificationMessage_def)

lemma on_error_Some:
  "on_error w dev (Some send) e =
     (ConsoleError [Str (emoji_cross @ '' Error occurred:''), Str (message e)]
        # PushoverSend (notificationMessage (error_message w (to_str (device_name dev)) e)
             (Some error_title) (Some 1) (Some ''siren''))
        # (case send (notificationMessage (error_message w (to_str (device_name dev)) e)
                  (Some error_title) (Some 1) (Some ''siren'')) of
             Inr r \<Rightarrow>
               [ConsoleLog [Str (emoji_check @ '' Pushover notification sent successfully'')],
                ConsoleLog [Str (emoji_check @ '' Error notification sent successfully'')]]
           | Inl ne \<Rightarrow>
               [ConsoleError [Str (emoji_cross @ '' Failed to send Pushover notification:''),
                              Err ne],
                ConsoleError [Str (emoji_cross @ '' Failed to send error notification:''),
                              Str (message ne)]]),
      Inl e)"
  by (simp add: on_error_def sendNotification_Some io_seq_error_log io_bind_Inr io_bind_Inl
      io_catch_Inr io_catch_Inl io_seq_Inr io_throw_def console_log_def console_error_def
      split: sum.splits)

lemma on_error_rethrows: "snd (on_error w dev pushover e) = Inl e"
  by (cases pushover) (simp_all add: on_error_None on_error_Some)

lemma on_error_sent:
  "sent (fst (on_error w dev pushover e)) =
     (case pushover of None \<Rightarrow> []
      | Some send \<Rightarrow> [notificationMessage (error_message w (to_str (device_name dev)) e)
           (Some error_title) (Some 1) (Some ''siren'')])"
  by (cases pushover) (simp_all add: on_error_None on_error_Some split: sum.splits)

lemma on_error_logged_only:
  "logged_only (fst (on_error w dev pushover e)) =
     (case pushover of
        None \<Rightarrow> [error_title @ '' - '' @ error_message w (to_str (device_name dev)) e]
      | Some send \<Rightarrow> [])"
  by (cases pushover)
    (simp_all add: on_error_None on_error_Some not_would_send split: sum.splits)

lemma checkSteamDeckStock_scrape_failed:
  assumes "DEVICES_get code = Some dev" and "scrape w = (tr, Inl e)"
  shows "checkSteamDeckStock w code pushover flag =
     (ConsoleLog [Str (emoji_search @ '' Monitoring '' @ to_str (device_name dev) @ ''...'')]
        # tr @ fst (on_error w dev pushover e)
        @ (if launch w = None then [Browser Close] else []),
      Inl e)"
  using assms on_error_rethrows [of w dev pushover e]
  by (simp add: checkSteamDeckStock_def io_seq_log io_bind_Inl io_catch_Inl io_finally_pair)

lemma checkSteamDeckStock_scraped:
  assumes "DEVICES_get code = Some dev" and "scrape w = (tr, Inr texts)"
  shows "checkSteamDeckStock w code pushover flag =
     (ConsoleLog [Str (emoji_search @ '' Monitoring '' @ to_str (device_name dev) @ ''...'')]
        # tr @ fst (decide w dev pushover flag texts)
        @ (case snd (decide w dev pushover flag texts) of
             Inl e \<Rightarrow> fst (on_error w dev pushover e) | Inr u \<Rightarrow> [])
        @ [Browser Close],
      snd (decide w dev pushover flag texts))"
proof -
  have l: "launch w = None"
    using assms(2) by (rule_tac w = w in scrape_cases) simp_all
  obtain tr_d r where d: "decide w dev pushover flag texts = (tr_d, r)"
    by (cases "decide w dev pushover flag texts")
  show ?thesis
    using assms l d on_error_rethrows [of w dev pushover]
    by (cases r)
      (simp_all add: checkSteamDeckStock_def io_seq_log io_bind_Inr io_catch_Inl io_catch_Inr
        io_finally_pair)
qed


lemma bind_unit:
  "io_bind S (\<lambda>_. io_return ()) = (fst S, case snd S of Inl e \<Rightarrow> Inl e | Inr _ \<Rightarrow> Inr ())"
  by (cases S; cases "snd S") (simp_all add: io_bind_Inl io_bind_Inr io_return_def)

lemma bind_unit':
  "io_bind S (\<lambda>_. ([], Inr ())) = (fst S, case snd S of Inl e \<Rightarrow> Inl e | Inr _ \<Rightarrow> Inr ())"
  using bind_unit [of S] by (simp add: io_return_def)

lemma name_starts: "(code, d) \<in> set DEVICES \<Longrightarrow> \<exists>s. name d = CHR ''S'' # s"
  by (auto simp: DEVICES_def)

lemma decide_unavailable:
  assumes d: "(code, d) \<in> set DEVICES"
    and un: "\<not> checkDeviceAvailability texts (Own d)"
  obtains pre where "sent pre = []" and "logged_only pre = []"
    and "decide w (Own d) pushover flag texts =
      (if checkAllDevicesAvailability texts \<noteq> [] then
         (pre @ fst (sendNotification pushover
              (other_devices_message (name d)
                 (map (\<lambda>(c, d'). Some (name d'))
                    (filter (\<lambda>(c, d'). checkDeviceAvailability texts (Own d')) DEVICES)))
              (Some other_devices_title) (Some 0) (Some ''pushover'')),
          case snd (sendNotification pushover
              (other_devices_message (name d)
                 (map (\<lambda>(c, d'). Some (name d'))
                    (filter (\<lambda>(c, d'). checkDeviceAvailability texts (Own d')) DEVICES)))
              (Some other_devices_title) (Some 0) (Some ''pushover'')) of
            Inl e \<Rightarrow> Inl e | Inr _ \<Rightarrow> Inr ())
       else if flag then
         (pre @ fst (sendNotification pushover (heartbeat_message w (name d))
              (Some heartbeat_title) (Some 0) (Some ''pushover'')),
          case snd (sendNotification pushover (heartbeat_message w (name d))
              (Some heartbeat_title) (Some 0) (Some ''pushover'')) of
            Inl e \<Rightarrow> Inl e | Inr _ \<Rightarrow> Inr ())
       else (pre, Inr ()))"
proof (cases "checkAllDevicesAvailability texts = []")
  case True
  from name_starts [OF d] obtain s where s: "name d = CHR ''S'' # s" ..
  let ?pre = "[ConsoleLog [Texts texts],
     ConsoleLog [Str (name d @ '' Available: false'')],
     ConsoleLog [Str ''All available devices: none''],
     ConsoleLog [Str (emoji_cross @ '' No '' @ name d @ '' in stock.'')]]"
  have "sent ?pre = []" by simp
  moreover have "logged_only ?pre = []"
    by (simp add: s not_would_send)
  moreover have "decide w (Own d) pushover flag texts =
      (if flag then
         (?pre @ fst (sendNotification pushover (heartbeat_message w (name d))
              (Some heartbeat_title) (Some 0) (Some ''pushover'')),
          case snd (sendNotification pushover (heartbeat_message w (name d))
              (Some heartbeat_title) (Some 0) (Some ''pushover'')) of
            Inl e \<Rightarrow> Inl e | Inr _ \<Rightarrow> Inr ())
       else (?pre, Inr ()))"
    using un True
    by (simp add: decide_def Let_def io_seq_log bind_unit' device_name_def to_str_def
        io_return_def)
  ultimately show thesis
    using True by (intro that [of ?pre]) simp_all
next
  case False
  from name_starts [OF d] obtain s where s: "name d = CHR ''S'' # s" ..
  let ?names = "map (\<lambda>(c, d'). Some (name d'))
      (filter (\<lambda>(c, d'). checkDeviceAvailability texts (Own d')) DEVICES)"
  let ?pre = "[ConsoleLog [Texts texts],
     ConsoleLog [Str (name d @ '' Available: false'')],
     ConsoleLog [Str (''All available devices: ''
        @ (if join '', '' (checkAllDevicesAvailability texts) = [] then ''none''
           else join '', '' (checkAllDevicesAvailability texts)))],
     ConsoleLog [Str (emoji_cross @ '' No '' @ name d @ '' in stock.'')],
     ConsoleLog [Str (emoji_info @ '' Other Steam Deck models available: ''
        @ join '', '' (map (\<lambda>other. case other of None \<Rightarrow> [] | Some s \<Rightarrow> s) ?names))]]"
  have "sent ?pre = []" by simp
  moreover have "logged_only ?pre = []"
    by (simp add: s not_would_send)
  moreover have "decide w (Own d) pushover flag texts =
      (?pre @ fst (sendNotification pushover (other_devices_message (name d) ?names)
              (Some other_devices_title) (Some 0) (Some ''pushover'')),
       case snd (sendNotification pushover (other_devices_message (name d) ?names)
              (Some other_devices_title) (Some 0) (Some ''pushover'')) of
         Inl e \<Rightarrow> Inl e | Inr _ \<Rightarrow> Inr ())"
    using un False
    by (simp add: decide_def Let_def io_seq_log bind_unit device_name_def to_str_def
        device_names_available io_bind_Inr)
  ultimately show thesis
    using False by (intro that [of ?pre]) simp_all
qed

section \<open>Properties of the orchestrator\<close>

lemma run_one_notification:
  assumes d: "(code, d) \<in> set DEVICES"
    and scr: "scrape w = (tr, Inr texts)"
    and dec: "decide w (Own d) pushover flag texts =
       (pre @ fst (sendNotification pushover body title0 priority0 sound0),
        case snd (sendNotification pushover body title0 priority0 sound0) of
          Inl e \<Rightarrow> Inl e | Inr _ \<Rightarrow> Inr ())"
    and quiet: "sent pre = []" "logged_only pre = []"
  shows "case pushover of
      None \<Rightarrow>
        sent (fst (checkSteamDeckStock w code pushover flag)) = []
        \<and> logged_only (fst (checkSteamDeckStock w code pushover flag))
            = [msg_title (notificationMessage body title0 priority0 sound0) @ '' - '' @ body]
        \<and> snd (checkSteamDeckStock w code pushover flag) = Inr ()
    | Some send \<Rightarrow>
        (case send (notificationMessage body title0 priority0 sound0) of
           Inr r \<Rightarrow>
             sent (fst (checkSteamDeckStock w code pushover flag))
               = [notificationMessage body title0 priority0 sound0]
             \<and> logged_only (fst (checkSteamDeckStock w code pushover flag)) = []
             \<and> snd (checkSteamDeckStock w code pushover flag) = Inr ()
         | Inl e \<Rightarrow>
             sent (fst (checkSteamDeckStock w code pushover flag))
               = [notificationMessage body title0 priority0 sound0,
                  notificationMessage (error_message w (name d) e)
                    (Some error_title) (Some 1) (Some ''siren'')]
             \<and> logged_only (fst (checkSteamDeckStock w code pushover flag)) = []
             \<and> snd (checkSteamDeckStock w code pushover flag) = Inl e)"
proof -
  have q: "sent tr = []" "logged_only tr = []"
    using scr by (rule_tac w = w in scrape_cases, simp_all)+
  note run = checkSteamDeckStock_scraped [OF DEVICES_get_Own [OF d] scr, of pushover flag]
  show ?thesis
  proof (cases pushover)
    case None
    with run dec q quiet show ?thesis
      by (simp add: sendNotification_None sent_append logged_only_append not_would_send
          device_name_def to_str_def)
  next
    case (Some send)
    show ?thesis
    proof (cases "send (notificationMessage body title0 priority0 sound0)")
      case (Inl e)
      with Some run dec q quiet show ?thesis
        by (simp add: sendNotification_Some sent_append logged_only_append not_would_send
            on_error_sent on_error_logged_only device_name_def to_str_def)
    next
      case (Inr r)
      with Some run dec q quiet show ?thesis
        by (simp add: sendNotification_Some sent_append logged_only_append not_would_send
            device_name_def to_str_def)
    qed
  qed
qed


lemma initializePushover_quiet:
  "sent (fst (initializePushover w userKey apiToken)) = []"
  "logged_only (fst (initializePushover w userKey apiToken)) = []"
  by (simp_all add: initializePushover_def not_would_send)

lemma titles_differ:
  "error_title \<noteq> other_devices_title" "error_title \<noteq> heartbeat_title"
  by (simp_all add: error_title_def other_devices_title_def heartbeat_title_def
      emoji_fire_def emoji_package_def emoji_check_def)

text \<open>
  C2. When the target device is absent from the availability result but some other
  cataloged device is present, the orchestrator composes one "other devices available"
  message, at priority 0 whatever the priorities of the devices that are available,
  whose body contains the display name of every available device. With a client that
  message is handed to \<open>send\<close> exactly once; if it is delivered it is the only
  message of the run and the run succeeds, and if delivery fails the only further
  message is the error notification of the \<open>catch\<close> block. Without a client the message
  is logged once and nothing is sent.
\<close>

theorem other_devices_notification:
  assumes "(deviceCode, d) \<in> set DEVICES"
    and "scrape w = (tr, Inr texts)"
    and "deviceCode \<notin> set (checkAllDevicesAvailability texts)"
    and "checkAllDevicesAvailability texts \<noteq> []"
  shows
    "let m = notificationMessage
               (other_devices_message (name d)
                  (map (\<lambda>(c, d'). Some (name d'))
                     (filter (\<lambda>(c, d'). checkDeviceAvailability texts (Own d')) DEVICES)))
               (Some other_devices_title) (Some 0) (Some ''pushover'');
         run = checkSteamDeckStock w deviceCode pushover flag
     in msg_priority m = 0
        \<and> msg_title m = other_devices_title
        \<and> (\<forall>(c, d') \<in> set DEVICES.
              c \<in> set (checkAllDevicesAvailability texts)
                \<longrightarrow> sublist (name d') (msg_message m))
        \<and> (case pushover of
              None \<Rightarrow>
                sent (fst run) = []
                \<and> logged_only (fst run) = [other_devices_title @ '' - '' @ msg_message m]
                \<and> snd run = Inr ()
            | Some send \<Rightarrow>
                filter (\<lambda>x. msg_title x = other_devices_title) (sent (fst run)) = [m]
                \<and> (case send m of
                      Inr r \<Rightarrow> sent (fst run) = [m] \<and> snd run = Inr ()
                    | Inl e \<Rightarrow>
                        sent (fst run)
                          = [m, notificationMessage (error_message w (name d) e)
                                  (Some error_title) (Some 1) (Some ''siren'')]
                        \<and> snd run = Inl e))"
proof -
  let ?names = "map (\<lambda>(c, d'). Some (name d'))
      (filter (\<lambda>(c, d'). checkDeviceAvailability texts (Own d')) DEVICES)"
  let ?m = "notificationMessage (other_devices_message (name d) ?names)
      (Some other_devices_title) (Some 0) (Some ''pushover'')"
  let ?run = "checkSteamDeckStock w deviceCode pushover flag"
  have un: "\<not> checkDeviceAvailability texts (Own d)"
    using assms(1,3) by (simp add: mem_checkAllDevicesAvailability)
  have fields: "msg_priority ?m = 0" "msg_title ?m = other_devices_title"
    "msg_message ?m = other_devices_message (name d) ?names"
    by (simp_all add: notificationMessage_def)
  have lists: "sublist (name d') (msg_message ?m)"
    if "(c, d') \<in> set DEVICES" and "c \<in> set (checkAllDevicesAvailability texts)" for c d'
  proof -
    from that have "checkDeviceAvailability texts (Own d')"
      by (simp add: mem_checkAllDevicesAvailability)
    with that(1) have "Some (name d') \<in> set ?names" by force
    then show ?thesis
      unfolding fields by (rule other_devices_message_lists)
  qed
  from decide_unavailable [OF assms(1) un, where w = w and pushover = pushover and flag = flag]
  obtain pre where pre: "sent pre = []" "logged_only pre = []"
    and dec: "decide w (Own d) pushover flag texts =
      (pre @ fst (sendNotification pushover (other_devices_message (name d) ?names)
                    (Some other_devices_title) (Some 0) (Some ''pushover'')),
       case snd (sendNotification pushover (other_devices_message (name d) ?names)
                    (Some other_devices_title) (Some 0) (Some ''pushover'')) of
         Inl e \<Rightarrow> Inl e | Inr _ \<Rightarrow> Inr ())"
    using assms(4) by auto
  from run_one_notification [OF assms(1,2) dec pre]
  have run: "case pushover of
      None \<Rightarrow> sent (fst ?run) = []
        \<and> logged_only (fst ?run) = [msg_title ?m @ '' - '' @ other_devices_message (name d) ?names]
        \<and> snd ?run = Inr ()
    | Some send \<Rightarrow>
        (case send ?m of
           Inr r \<Rightarrow> sent (fst ?run) = [?m] \<and> logged_only (fst ?run) = [] \<and> snd ?run = Inr ()
         | Inl e \<Rightarrow>
             sent (fst ?run) = [?m, notificationMessage (error_message w (name d) e)
                (Some error_title) (Some 1) (Some ''siren'')]
             \<and> logged_only (fst ?run) = [] \<and> snd ?run = Inl e)" .
  have err_title: "msg_title (notificationMessage (error_message w (name d) e)
      (Some error_title) (Some 1) (Some ''siren'')) \<noteq> other_devices_title" for e
    by (simp add: notificationMessage_def titles_differ)
  have deliver: "case pushover of
      None \<Rightarrow> sent (fst ?run) = []
        \<and> logged_only (fst ?run) = [other_devices_title @ '' - '' @ msg_message ?m]
        \<and> snd ?run = Inr ()
    | Some send \<Rightarrow>
        filter (\<lambda>x. msg_title x = other_devices_title) (sent (fst ?run)) = [?m]
        \<and> (case send ?m of
              Inr r \<Rightarrow> sent (fst ?run) = [?m] \<and> snd ?run = Inr ()
            | Inl e \<Rightarrow>
                sent (fst ?run) = [?m, notificationMessage (error_message w (name d) e)
                   (Some error_title) (Some 1) (Some ''siren'')]
                \<and> snd ?run = Inl e)"
  proof (cases pushover)
    case None
    with run show ?thesis by (simp add: fields)
  next
    case (Some send)
    with run show ?thesis
      by (cases "send ?m") (simp_all add: fields(2) err_title)
  qed
  from fields(1,2) lists deliver show ?thesis
    unfolding Let_def by blast
qed


lemma scrape_world_showing:
  "snd (scrape (world_showing [t])) = Inr [t]"
  by (simp add: scrape_def world_showing_def io_seq_log io_seq_Inr io_bind_Inr browser_call_def
      io_return_def console_log_def)

lemma available_only_lcd_256:
  "checkAllDevicesAvailability [''Steam Deck LCD 256GB ... Add to cart''] = [''lcd-256'']"
  by (simp add: checkAllDevicesAvailability_def DEVICES_def checkDeviceAvailability_def
      device_name_def to_str_def)

theorem other_devices_notification_witness:
  "(''oled-512'', \<lparr>name = ''Steam Deck OLED 512GB'', priority = 1, sound = ''magic''\<rparr>)
      \<in> set DEVICES
   \<and> snd (scrape (world_showing [''Steam Deck LCD 256GB ... Add to cart'']))
       = Inr [''Steam Deck LCD 256GB ... Add to cart'']
   \<and> checkAllDevicesAvailability [''Steam Deck LCD 256GB ... Add to cart''] = [''lcd-256'']
   \<and> map msg_priority
        (sent (fst (checkSteamDeckStock
           (world_showing [''Steam Deck LCD 256GB ... Add to cart''])
           ''oled-512'' (Some delivers) False))) = [0]
   \<and> map msg_title
        (sent (fst (checkSteamDeckStock
           (world_showing [''Steam Deck LCD 256GB ... Add to cart''])
           ''oled-512'' (Some delivers) False))) = [other_devices_title]
   \<and> snd (checkSteamDeckStock (world_showing [''Steam Deck LCD 256GB ... Add to cart''])
        ''oled-512'' (Some delivers) False) = Inr ()"
proof -
  let ?T = "[''Steam Deck LCD 256GB ... Add to cart'']"
  let ?d = "\<lparr>name = ''Steam Deck OLED 512GB'', priority = 1, sound = ''magic''\<rparr>"
  have h1: "(''oled-512'', ?d) \<in> set DEVICES"
    by (simp add: DEVICES_def)
  have s: "snd (scrape (world_showing ?T)) = Inr ?T"
    by (rule scrape_world_showing)
  then have h2: "scrape (world_showing ?T) = (fst (scrape (world_showing ?T)), Inr ?T)"
    by (metis prod.collapse)
  have av: "checkAllDevicesAvailability ?T = [''lcd-256'']"
    by (rule available_only_lcd_256)
  have h3: "''oled-512'' \<notin> set (checkAllDevicesAvailability ?T)"
    by (simp add: av)
  have h4: "checkAllDevicesAvailability ?T \<noteq> []"
    by (simp add: av)
  from other_devices_notification [OF h1 h2 h3 h4, of "Some delivers" False] h1 s av
  show ?thesis
    by (simp add: Let_def delivers_def)
qed

lemma main_outcome:
  assumes "\<not> listDevices args"
  shows "\<exists>pushover tr_init tr_exit.
      sent tr_init = [] \<and> logged_only tr_init = []
      \<and> main w args =
        (case checkSteamDeckStock w (device args) pushover (notifySuccess args) of
           (tr, Inr u) \<Rightarrow>
             (tr_init @ tr
                @ [ConsoleLog [Str (emoji_check @ '' Stock check completed successfully'')]], 0)
         | (tr, Inl e) \<Rightarrow> (tr_init @ tr @ tr_exit e, 1))"
proof -
  let ?userKey = "js_or (pushoverUser args) (PUSHOVER_USER w)"
  let ?apiToken = "js_or (pushoverToken args) (PUSHOVER_TOKEN w)"
  obtain tr_init pushover where i: "initializePushover w ?userKey ?apiToken = (tr_init, pushover)"
    by (cases "initializePushover w ?userKey ?apiToken")
  from initializePushover_quiet [of w ?userKey ?apiToken] i
  have q: "sent tr_init = []" "logged_only tr_init = []" by simp_all
  let ?tr_exit = "\<lambda>e. [ConsoleError [Str (emoji_boom @ '' Stock check failed:''), Str (message e)]]
      @ (if pushover \<noteq> None then
           fst (io_catch
             (io_bind (sendNotification pushover (critical_message w e)
                         (Some critical_title) (Some 2) (Some ''siren''))
                (\<lambda>_. console_log [Str (emoji_check @ '' Critical error notification sent'')]))
             (\<lambda>notificationError.
                console_error
                  [Str (emoji_cross @ '' Failed to send critical error notification:''),
                   Str (message notificationError)]))
         else [])"
  have "main w args =
        (case checkSteamDeckStock w (device args) pushover (notifySuccess args) of
           (tr, Inr u) \<Rightarrow>
             (tr_init @ tr
                @ [ConsoleLog [Str (emoji_check @ '' Stock check completed successfully'')]], 0)
         | (tr, Inl e) \<Rightarrow> (tr_init @ tr @ ?tr_exit e, 1))"
    using assms i by (simp add: main_def Let_def split: prod.splits sum.splits)
  with q show ?thesis
    by (intro exI [where x = pushover] exI [where x = tr_init] exI [where x = ?tr_exit]) simp
qed

text \<open>
  C3. When no cataloged device is available, the orchestrator composes a heartbeat
  message exactly when \<open>notifySuccess\<close> is set, and that message has priority 0. With
  the flag set and a client, the heartbeat is handed to \<open>send\<close> once (without a client
  it is logged once); with the flag unset the run sends nothing, logs no notification
  and resolves, and the script run with that flag unset exits with code 0.
\<close>

theorem heartbeat_notification:
  assumes "(deviceCode, d) \<in> set DEVICES"
    and "scrape w = (tr, Inr texts)"
    and "checkAllDevicesAvailability texts = []"
  shows
    "let hb = notificationMessage (heartbeat_message w (name d))
                (Some heartbeat_title) (Some 0) (Some ''pushover'');
         run = checkSteamDeckStock w deviceCode pushover flag
     in msg_priority hb = 0
        \<and> msg_title hb = heartbeat_title
        \<and> (if flag then
              (case pushover of
                 None \<Rightarrow>
                   sent (fst run) = []
                   \<and> logged_only (fst run) = [heartbeat_title @ '' - '' @ msg_message hb]
                   \<and> snd run = Inr ()
               | Some send \<Rightarrow>
                   filter (\<lambda>x. msg_title x = heartbeat_title) (sent (fst run)) = [hb]
                   \<and> (case send hb of
                         Inr r \<Rightarrow> sent (fst run) = [hb] \<and> snd run = Inr ()
                       | Inl e \<Rightarrow>
                           sent (fst run)
                             = [hb, notificationMessage (error_message w (name d) e)
                                      (Some error_title) (Some 1) (Some ''siren'')]
                           \<and> snd run = Inl e))
            else sent (fst run) = [] \<and> logged_only (fst run) = [] \<and> snd run = Inr ())
        \<and> (\<not> listDevices args \<and> device args = deviceCode \<and> \<not> notifySuccess args
             \<longrightarrow> sent (fst (main w args)) = [] \<and> logged_only (fst (main w args)) = []
                 \<and> snd (main w args) = 0)"
proof -
  let ?hb = "notificationMessage (heartbeat_message w (name d))
      (Some heartbeat_title) (Some 0) (Some ''pushover'')"
  have un: "\<not> checkDeviceAvailability texts (Own d)"
    using assms(1,3) mem_checkAllDevicesAvailability [of deviceCode d texts] by simp
  have fields: "msg_priority ?hb = 0" "msg_title ?hb = heartbeat_title"
    "msg_message ?hb = heartbeat_message w (name d)"
    by (simp_all add: notificationMessage_def)
  have q: "sent tr = []" "logged_only tr = []"
    using assms(2) by (rule_tac w = w in scrape_cases, simp_all)+
  have silent: "sent (fst (checkSteamDeckStock w deviceCode p False)) = []
      \<and> logged_only (fst (checkSteamDeckStock w deviceCode p False)) = []
      \<and> snd (checkSteamDeckStock w deviceCode p False) = Inr ()" for p
  proof -
    from decide_unavailable [OF assms(1) un, where w = w and pushover = p and flag = False]
    obtain pre where pre: "sent pre = []" "logged_only pre = []"
      and dec: "decide w (Own d) p False texts = (pre, Inr ())"
      using assms(3) by auto
    from checkSteamDeckStock_scraped [OF DEVICES_get_Own [OF assms(1)] assms(2), of p False]
      dec pre q
    show ?thesis
      by (simp add: sent_append logged_only_append not_would_send)
  qed
  have notified: "case pushover of
      None \<Rightarrow>
        sent (fst (checkSteamDeckStock w deviceCode pushover True)) = []
        \<and> logged_only (fst (checkSteamDeckStock w deviceCode pushover True))
            = [heartbeat_title @ '' - '' @ msg_message ?hb]
        \<and> snd (checkSteamDeckStock w deviceCode pushover True) = Inr ()
    | Some send \<Rightarrow>
        filter (\<lambda>x. msg_title x = heartbeat_title)
          (sent (fst (checkSteamDeckStock w deviceCode pushover True))) = [?hb]
        \<and> (case send ?hb of
              Inr r \<Rightarrow> sent (fst (checkSteamDeckStock w deviceCode pushover True)) = [?hb]
                \<and> snd (checkSteamDeckStock w deviceCode pushover True) = Inr ()
            | Inl e \<Rightarrow>
                sent (fst (checkSteamDeckStock w deviceCode pushover True))
                  = [?hb, notificationMessage (error_message w (name d) e)
                       (Some error_title) (Some 1) (Some ''siren'')]
                \<and> snd (checkSteamDeckStock w deviceCode pushover True) = Inl e)"
  proof -
    from decide_unavailable [OF assms(1) un, where w = w and pushover = pushover and flag = True]
    obtain pre where pre: "sent pre = []" "logged_only pre = []"
      and dec: "decide w (Own d) pushover True texts =
        (pre @ fst (sendNotification pushover (heartbeat_message w (name d))
                      (Some heartbeat_title) (Some 0) (Some ''pushover'')),
         case snd (sendNotification pushover (heartbeat_message w (name d))
                      (Some heartbeat_title) (Some 0) (Some ''pushover'')) of
           Inl e \<Rightarrow> Inl e | Inr _ \<Rightarrow> Inr ())"
      using assms(3) by auto
    note run = run_one_notification [OF assms(1,2) dec pre]
    have err_title: "msg_title (notificationMessage (error_message w (name d) e)
        (Some error_title) (Some 1) (Some ''siren'')) \<noteq> heartbeat_title" for e
      by (simp add: notificationMessage_def titles_differ)
    show ?thesis
    proof (cases pushover)
      case None
      with run show ?thesis by (simp add: fields)
    next
      case (Some send)
      with run show ?thesis
        by (cases "send ?hb") (simp_all add: fields(2) err_title)
    qed
  qed
  have exit0: "sent (fst (main w args)) = [] \<and> logged_only (fst (main w args)) = []
      \<and> snd (main w args) = 0"
    if a: "\<not> listDevices args" "device args = deviceCode" "\<not> notifySuccess args"
  proof -
    from main_outcome [OF a(1), of w] obtain p tr_init tr_exit where
      i: "sent tr_init = []" "logged_only tr_init = []"
      and m: "main w args =
        (case checkSteamDeckStock w (device args) p (notifySuccess args) of
           (tr, Inr u) \<Rightarrow>
             (tr_init @ tr
                @ [ConsoleLog [Str (emoji_check @ '' Stock check completed successfully'')]], 0)
         | (tr, Inl e) \<Rightarrow> (tr_init @ tr @ tr_exit e, 1))"
      by blast
    obtain tr' where r: "checkSteamDeckStock w deviceCode p False = (tr', Inr ())"
      and "sent tr' = []" "logged_only tr' = []"
      using silent [of p] by (cases "checkSteamDeckStock w deviceCode p False") simp
    with m i a show ?thesis
      by (simp add: sent_append logged_only_append not_would_send)
  qed
  have exit0': "\<not> listDevices args \<and> device args = deviceCode \<and> \<not> notifySuccess args
      \<longrightarrow> sent (fst (main w args)) = [] \<and> logged_only (fst (main w args)) = []
          \<and> snd (main w args) = 0"
    using exit0 by blast
  show ?thesis
  proof (cases flag)
    case True
    then have f: "flag = True" by simp
    from fields(1,2) notified exit0' show ?thesis
      unfolding f Let_def by simp
  next
    case False
    then have f: "flag = False" by simp
    from fields(1,2) silent [of pushover] exit0' show ?thesis
      unfolding f Let_def by simp
  qed
qed


lemma nothing_available:
  "checkAllDevicesAvailability [''Steam Deck LCD 256GB ... Out of stock''] = []"
  by (simp add: checkAllDevicesAvailability_def DEVICES_def checkDeviceAvailability_def
      device_name_def to_str_def)

theorem heartbeat_notification_witness:
  "(''oled-512'', \<lparr>name = ''Steam Deck OLED 512GB'', priority = 1, sound = ''magic''\<rparr>)
      \<in> set DEVICES
   \<and> snd (scrape (world_showing [''Steam Deck LCD 256GB ... Out of stock'']))
       = Inr [''Steam Deck LCD 256GB ... Out of stock'']
   \<and> checkAllDevicesAvailability [''Steam Deck LCD 256GB ... Out of stock''] = []
   \<and> sent (fst (main (world_showing [''Steam Deck LCD 256GB ... Out of stock''])
        \<lparr>device = ''oled-512'', pushoverUser = None, pushoverToken = None,
         notifySuccess = False, listDevices = False\<rparr>)) = []
   \<and> snd (main (world_showing [''Steam Deck LCD 256GB ... Out of stock''])
        \<lparr>device = ''oled-512'', pushoverUser = None, pushoverToken = None,
         notifySuccess = False, listDevices = False\<rparr>) = 0
   \<and> map msg_priority
        (sent (fst (checkSteamDeckStock
           (world_showing [''Steam Deck LCD 256GB ... Out of stock''])
           ''oled-512'' (Some delivers) True))) = [0]
   \<and> map msg_title
        (sent (fst (checkSteamDeckStock
           (world_showing [''Steam Deck LCD 256GB ... Out of stock''])
           ''oled-512'' (Some delivers) True))) = [heartbeat_title]"
proof -
  let ?T = "[''Steam Deck LCD 256GB ... Out of stock'']"
  let ?d = "\<lparr>name = ''Steam Deck OLED 512GB'', priority = 1, sound = ''magic''\<rparr>"
  let ?args = "\<lparr>device = ''oled-512'', pushoverUser = None, pushoverToken = None,
         notifySuccess = False, listDevices = False\<rparr>"
  have h1: "(''oled-512'', ?d) \<in> set DEVICES"
    by (simp add: DEVICES_def)
  have s: "snd (scrape (world_showing ?T)) = Inr ?T"
    by (rule scrape_world_showing)
  then have h2: "scrape (world_showing ?T) = (fst (scrape (world_showing ?T)), Inr ?T)"
    by (metis prod.collapse)
  have h3: "checkAllDevicesAvailability ?T = []"
    by (rule nothing_available)
  from heartbeat_notification [OF h1 h2 h3, of "Some delivers" True ?args]
    heartbeat_notification [OF h1 h2 h3, of None False ?args] h1 s h3
  show ?thesis
    by (simp add: Let_def delivers_def)
qed

text \<open>
  C5. When the scraper fails, \<open>checkSteamDeckStock\<close> attempts one error notification (the
  only message it hands to the client; without a client, the only one it logs) and
  then rejects with the scraper's error itself, whatever the outcome of the
  notification: if the notification fails, that failure is logged and the scraper's
  error is still the result. The script then exits with code 1. (After the rejection
  the entry point attempts a further notification of its own when a client is
  configured; it is outside \<open>checkSteamDeckStock\<close> and does not change the exit code.)
\<close>

theorem scraper_failure_rethrown:
  assumes "DEVICES_get deviceCode = Some dev"
    and "scrape w = (tr, Inl err)"
  shows
    "let m = notificationMessage (error_message w (to_str (device_name dev)) err)
               (Some error_title) (Some 1) (Some ''siren'');
         run = checkSteamDeckStock w deviceCode pushover flag
     in snd run = Inl err
        \<and> (case pushover of
              None \<Rightarrow>
                sent (fst run) = []
                \<and> logged_only (fst run) = [error_title @ '' - '' @ msg_message m]
            | Some send \<Rightarrow>
                sent (fst run) = [m] \<and> logged_only (fst run) = []
                \<and> (case send m of
                      Inr r \<Rightarrow>
                        ConsoleLog [Str (emoji_check
                          @ '' Error notification sent successfully'')] \<in> set (fst run)
                    | Inl notificationError \<Rightarrow>
                        ConsoleError [Str (emoji_cross
                          @ '' Failed to send error notification:''),
                          Str (message notificationError)] \<in> set (fst run)))
        \<and> (\<not> listDevices args \<and> device args = deviceCode \<longrightarrow> snd (main w args) = 1)"
proof -
  let ?m = "notificationMessage (error_message w (to_str (device_name dev)) err)
      (Some error_title) (Some 1) (Some ''siren'')"
  have q: "sent tr = []" "logged_only tr = []"
    using assms(2) by (rule_tac w = w in scrape_cases, simp_all)+
  note run = checkSteamDeckStock_scrape_failed [OF assms]
  have res: "snd (checkSteamDeckStock w deviceCode p f) = Inl err" for p f
    by (simp add: run)
  have body: "msg_message ?m = error_message w (to_str (device_name dev)) err"
    by (simp add: notificationMessage_def)
  have notify: "case pushover of
      None \<Rightarrow>
        sent (fst (checkSteamDeckStock w deviceCode pushover flag)) = []
        \<and> logged_only (fst (checkSteamDeckStock w deviceCode pushover flag))
            = [error_title @ '' - '' @ msg_message ?m]
    | Some send \<Rightarrow>
        sent (fst (checkSteamDeckStock w deviceCode pushover flag)) = [?m]
        \<and> logged_only (fst (checkSteamDeckStock w deviceCode pushover flag)) = []
        \<and> (case send ?m of
              Inr r \<Rightarrow>
                ConsoleLog [Str (emoji_check @ '' Error notification sent successfully'')]
                  \<in> set (fst (checkSteamDeckStock w deviceCode pushover flag))
            | Inl notificationError \<Rightarrow>
                ConsoleError [Str (emoji_cross @ '' Failed to send error notification:''),
                  Str (message notificationError)]
                  \<in> set (fst (checkSteamDeckStock w deviceCode pushover flag)))"
  proof (cases pushover)
    case None
    with q show ?thesis
      by (simp add: run sent_append logged_only_append not_would_send on_error_sent
          on_error_logged_only body)
  next
    case (Some send)
    with q show ?thesis
      by (cases "send ?m")
        (simp_all add: run sent_append logged_only_append not_would_send on_error_sent
          on_error_logged_only on_error_Some)
  qed
  have exit1: "\<not> listDevices args \<and> device args = deviceCode \<longrightarrow> snd (main w args) = 1"
  proof
    assume a: "\<not> listDevices args \<and> device args = deviceCode"
    then have l: "\<not> listDevices args" by simp
    from main_outcome [OF l, of w] obtain p tr_init tr_exit where
      m: "main w args =
        (case checkSteamDeckStock w (device args) p (notifySuccess args) of
           (tr, Inr u) \<Rightarrow>
             (tr_init @ tr
                @ [ConsoleLog [Str (emoji_check @ '' Stock check completed successfully'')]], 0)
         | (tr, Inl e) \<Rightarrow> (tr_init @ tr @ tr_exit e, 1))"
      by blast
    from res [of p "notifySuccess args"] a
    obtain tr' where "checkSteamDeckStock w (device args) p (notifySuccess args) = (tr', Inl err)"
      by (cases "checkSteamDeckStock w (device args) p (notifySuccess args)") simp
    with m show "snd (main w args) = 1" by simp
  qed
  from res [of pushover flag] notify exit1 show ?thesis
    unfolding Let_def by blast
qed


theorem scraper_failure_rethrown_witness:
  "DEVICES_get ''oled-512''
     = Some (Own \<lparr>name = ''Steam Deck OLED 512GB'', priority = 1, sound = ''magic''\<rparr>)
   \<and> snd (scrape ((world_showing [])\<lparr>goto := Some navigation_timeout\<rparr>))
       = Inl navigation_timeout
   \<and> snd (checkSteamDeckStock ((world_showing [])\<lparr>goto := Some navigation_timeout\<rparr>)
        ''oled-512'' (Some refuses) False) = Inl navigation_timeout
   \<and> map msg_priority
        (sent (fst (checkSteamDeckStock ((world_showing [])\<lparr>goto := Some navigation_timeout\<rparr>)
           ''oled-512'' (Some refuses) False))) = [1]
   \<and> snd (main ((world_showing [])\<lparr>goto := Some navigation_timeout\<rparr>)
        \<lparr>device = ''oled-512'', pushoverUser = None, pushoverToken = None,
         notifySuccess = False, listDevices = False\<rparr>) = 1"
proof -
  let ?W = "(world_showing [])\<lparr>goto := Some navigation_timeout\<rparr>"
  let ?d = "\<lparr>name = ''Steam Deck OLED 512GB'', priority = 1, sound = ''magic''\<rparr>"
  let ?args = "\<lparr>device = ''oled-512'', pushoverUser = None, pushoverToken = None,
         notifySuccess = False, listDevices = False\<rparr>"
  have h1: "DEVICES_get ''oled-512'' = Some (Own ?d)"
    by (simp add: DEVICES_get_def DEVICES_def)
  have s: "snd (scrape ?W) = Inl navigation_timeout"
    by (simp add: scrape_def world_showing_def io_seq_log io_seq_Inr io_seq_Inl
        browser_call_def)
  then have h2: "scrape ?W = (fst (scrape ?W), Inl navigation_timeout)"
    by (metis prod.collapse)
  from scraper_failure_rethrown [OF h1 h2, of "Some refuses" False ?args] h1 s
  show ?thesis
    by (simp add: Let_def notificationMessage_def)
qed

text \<open>
  C6. Without a client (\<open>pushover\<close> is \<open>null\<close>), for every message, title, priority and
  sound, \<open>sendNotification\<close> has one effect, a line on the console; it hands nothing to
  Pushover and resolves (to \<open>undefined\<close>), so it never throws. The same holds for the
  \<open>sendNotification\<close> of the single-device script.
\<close>

theorem sendNotification_without_client:
  "fst (sendNotification None body title0 priority0 sound0)
     = [ConsoleLog [Str (emoji_phone @ '' Would send notification: ''
          @ (case title0 of None \<Rightarrow> ''Steam Deck Restock Alert'' | Some t \<Rightarrow> t)
          @ '' - '' @ body)]]
   \<and> sent (fst (sendNotification None body title0 priority0 sound0)) = []
   \<and> snd (sendNotification None body title0 priority0 sound0) = Inr None
   \<and> fst (sendNotification_single None body title0 priority0)
     = [ConsoleLog [Str (emoji_phone @ '' Would send notification: ''
          @ (case title0 of None \<Rightarrow> ''Steam Deck Restock Alert'' | Some t \<Rightarrow> t)
          @ '' - '' @ body)]]
   \<and> sent (fst (sendNotification_single None body title0 priority0)) = []
   \<and> snd (sendNotification_single None body title0 priority0) = Inr None"
  by (simp add: sendNotification_def sendNotification_single_def)

theorem sendNotification_without_client_witness:
  "sendNotification None ''hello'' None (Some 2) (Some ''siren'')
     = ([ConsoleLog [Str (emoji_phone
           @ '' Would send notification: Steam Deck Restock Alert - hello'')]], Inr None)
   \<and> sendNotification_single None ''hello'' (Some ''Title'') None
     = ([ConsoleLog [Str (emoji_phone @ '' Would send notification: Title - hello'')]],
        Inr None)"
  using sendNotification_without_client [of "''hello''" None "Some 2" "Some ''siren''"]
    sendNotification_without_client [of "''hello''" "Some ''Title''" None]
  by (simp add: prod_eq_iff)

lemma unknown_device_code:
  "DEVICES_get deviceCode = None \<Longrightarrow>
     checkSteamDeckStock w deviceCode pushover flag =
       ([], Inl \<lparr>message = ''Unknown device code: '' @ deviceCode
                   @ ''. Available: oled-512, oled-1tb, lcd-256, lcd-512'',
                 stack = new_stack w\<rparr>)"
  by (simp add: checkSteamDeckStock_def io_throw_def DEVICES_def)

lemma DEVICES_get_toString: "DEVICES_get ''toString'' = Some (Inherited (Some ''toString''))"
  by (simp add: DEVICES_get_def DEVICES_def Object_prototype_def)

text \<open>
  C4. A device code for which \<open>DEVICES[deviceCode]\<close> is \<open>undefined\<close> makes
  \<open>checkSteamDeckStock\<close> throw \<open>Unknown device code\<close> with no effect at all
  (\<open>unknown_device_code\<close> above). The lookup is not a test of membership in the
  catalog, though: for the name of a property that the object literal inherits, such as
  \<open>toString\<close>, which is not a catalog code, the lookup yields a function, the guard
  passes, and the run monitors a device called \<open>toString\<close>: in every world the browser
  is launched, and in a world where the page shows no cart button the run resolves.
\<close>

theorem inherited_key_is_monitored:
  "map_of DEVICES ''toString'' = None
   \<and> hd (fst (checkSteamDeckStock w ''toString'' pushover flag))
       = ConsoleLog [Str (emoji_search @ '' Monitoring toString...'')]
   \<and> Browser Launch \<in> set (fst (checkSteamDeckStock w ''toString'' pushover flag))
   \<and> checkSteamDeckStock (world_showing []) ''toString'' None False
       = ([ConsoleLog [Str (emoji_search @ '' Monitoring toString...'')],
           ConsoleLog [Str ''Starting Steam Deck stock check...''],
           Browser Launch, Browser NewPage, Browser SetUserAgent,
           ConsoleLog [Str ''Navigating to Steam Deck refurbished page...''],
           Browser Goto,
           ConsoleLog [Str ''Checking cart buttons...''],
           Browser Focus, Browser Query,
           ConsoleLog [Str ''Found cart buttons:'', Num 0],
           ConsoleLog [Texts []],
           ConsoleLog [Str ''toString Available: false''],
           ConsoleLog [Str ''All available devices: none''],
           ConsoleLog [Str (emoji_cross @ '' No toString in stock.'')],
           Browser Close],
          Inr ())"
proof -
  have absent: "map_of DEVICES ''toString'' = None"
    by (simp add: DEVICES_def)
  have run: "hd (fst (checkSteamDeckStock w ''toString'' pushover flag))
       = ConsoleLog [Str (emoji_search @ '' Monitoring toString...'')]
     \<and> Browser Launch \<in> set (fst (checkSteamDeckStock w ''toString'' pushover flag))"
  proof (cases w rule: scrape_cases)
    case (fail tr e)
    from checkSteamDeckStock_scrape_failed [OF DEVICES_get_toString fail(1), of pushover flag]
      fail(4)
    show ?thesis
      by (simp add: device_name_def to_str_def)
  next
    case (ok tr texts)
    from checkSteamDeckStock_scraped [OF DEVICES_get_toString ok(1), of pushover flag] ok(4)
    show ?thesis
      by (simp add: device_name_def to_str_def)
  qed
  have example: "checkSteamDeckStock (world_showing []) ''toString'' None False
       = ([ConsoleLog [Str (emoji_search @ '' Monitoring toString...'')],
           ConsoleLog [Str ''Starting Steam Deck stock check...''],
           Browser Launch, Browser NewPage, Browser SetUserAgent,
           ConsoleLog [Str ''Navigating to Steam Deck refurbished page...''],
           Browser Goto,
           ConsoleLog [Str ''Checking cart buttons...''],
           Browser Focus, Browser Query,
           ConsoleLog [Str ''Found cart buttons:'', Num 0],
           ConsoleLog [Texts []],
           ConsoleLog [Str ''toString Available: false''],
           ConsoleLog [Str ''All available devices: none''],
           ConsoleLog [Str (emoji_cross @ '' No toString in stock.'')],
           Browser Close],
          Inr ())"
    by (simp add: checkSteamDeckStock_def DEVICES_get_toString scrape_def decide_def
        world_showing_def io_seq_log io_seq_Inr io_bind_Inr io_catch_Inr io_finally_pair
        browser_call_def io_return_def console_log_def device_name_def to_str_def
        checkDeviceAvailability_def checkAllDevicesAvailability_def DEVICES_def)
  from absent run example show ?thesis by blast
qed

lemma sublist_in_stock: "sublist ''IN STOCK'' (in_stock_title n)"
proof -
  have "in_stock_title n = (emoji_siren @ '' '' @ toUpperCase n @ '' '')
      @ ''IN STOCK'' @ (''! '' @ emoji_siren)"
    by (simp add: in_stock_title_def)
  then show ?thesis
    by (simp only: sublist_mid)
qed

text \<open>
  C7. Under the all-terms-present policy of the search-terms variant, the texts
  \<open>["Steam Deck 512 GB OLED ... Add to cart"]\<close> classify two catalog devices as available,
  \<open>oled-512\<close> and \<open>lcd-512\<close>: the terms of \<open>lcd-512\<close> (\<open>Steam Deck 512 GB\<close>,
  \<open>Add to cart\<close>) occur in every text that has the terms of \<open>oled-512\<close>. The title of the
  in-stock message contains \<open>IN STOCK\<close> for either device.
\<close>

theorem search_terms_overlap:
  "concat (map (\<lambda>(code, d).
       if checkDeviceAvailability_terms [''Steam Deck 512 GB OLED ... Add to cart''] d
       then [(code, name d)] else []) DEVICES_terms)
     = [(''oled-512'', ''Steam Deck OLED 512GB''), (''lcd-512'', ''Steam Deck LCD 512GB'')]
   \<and> sublist ''IN STOCK'' (in_stock_title ''Steam Deck OLED 512GB'')
   \<and> sublist ''IN STOCK'' (in_stock_title ''Steam Deck LCD 512GB'')"
  by (simp add: DEVICES_terms_def checkDeviceAvailability_terms_def sublist_in_stock)

lemma checkDeviceAvailability_terms_iff:
  "checkDeviceAvailability_terms texts d \<longleftrightarrow>
     (\<exists>t \<in> set texts. \<forall>term \<in> set (searchTerms d). sublist term t)"
  by (simp add: checkDeviceAvailability_terms_def list_ex_iff list_all_iff str_includes_sublist)

text \<open>
  C8, as stated, fails: a device entry carries no policy choice. No value of the device
  argument makes the name-based checker decide as the all-terms policy does for the
  terms of \<open>oled-512\<close>, and no entry with search terms makes the terms-based checker
  decide as the name-and-not-out-of-stock policy does for \<open>lcd-256\<close>.
\<close>

theorem no_policy_choice:
  "\<not> (\<exists>dev. \<forall>texts.
        checkDeviceAvailability texts dev
          = checkDeviceAvailability_terms texts
              \<lparr>name = ''Steam Deck OLED 512GB'', priority = 1, sound = ''magic'',
               searchTerms = [''Steam Deck 512 GB OLED'', ''Add to cart'']\<rparr>)
   \<and> \<not> (\<exists>dev :: device_terms. \<forall>texts.
        checkDeviceAvailability_terms texts dev
          = checkDeviceAvailability texts
              (Own \<lparr>name = ''Steam Deck LCD 256GB'', priority = 0, sound = ''pushover''\<rparr>))"
proof (intro conjI notI)
  let ?a = "\<lparr>name = ''Steam Deck OLED 512GB'', priority = 1, sound = ''magic'',
               searchTerms = [''Steam Deck 512 GB OLED'', ''Add to cart'']\<rparr>"
  assume "\<exists>dev. \<forall>texts. checkDeviceAvailability texts dev
      = checkDeviceAvailability_terms texts ?a"
  then obtain dev where "\<forall>texts. checkDeviceAvailability texts dev
      = checkDeviceAvailability_terms texts ?a" ..
  then have "checkDeviceAvailability [''Steam Deck 512 GB OLED Add to cart Out of stock''] dev
      = checkDeviceAvailability_terms [''Steam Deck 512 GB OLED Add to cart Out of stock''] ?a"
    by blast
  then show False
    by (simp add: checkDeviceAvailability_def checkDeviceAvailability_terms_def)
next
  let ?b = "Own \<lparr>name = ''Steam Deck LCD 256GB'', priority = 0, sound = ''pushover''\<rparr>"
  assume "\<exists>dev :: device_terms. \<forall>texts. checkDeviceAvailability_terms texts dev
      = checkDeviceAvailability texts ?b"
  then obtain dev :: device_terms where eq: "\<And>texts. checkDeviceAvailability_terms texts dev
      = checkDeviceAvailability texts ?b"
    by blast
  have "checkDeviceAvailability [''Steam Deck LCD 256GB''] ?b"
    by (simp add: checkDeviceAvailability_def device_name_def to_str_def)
  with eq have "checkDeviceAvailability_terms [''Steam Deck LCD 256GB''] dev"
    by simp
  then have "\<forall>term \<in> set (searchTerms dev). sublist term ''Steam Deck LCD 256GB''"
    by (simp add: checkDeviceAvailability_terms_iff)
  then have "\<forall>term \<in> set (searchTerms dev).
      sublist term (''Steam Deck LCD 256GB'' @ '' Out of stock'')"
    using sublist_embed [of _ "''Steam Deck LCD 256GB''" "[]" "'' Out of stock''"] by simp
  then have "checkDeviceAvailability_terms [''Steam Deck LCD 256GB Out of stock''] dev"
    by (simp add: checkDeviceAvailability_terms_iff)
  with eq have "checkDeviceAvailability [''Steam Deck LCD 256GB Out of stock''] ?b"
    by simp
  then show False
    by (simp add: checkDeviceAvailability_def device_name_def to_str_def)
qed

text \<open>
  C8, amended. Each variant of the checker applies one policy to every device it is
  given: the multi-device variant the name-present-and-not-out-of-stock policy, which
  reads only the entry's \<open>name\<close>; the search-terms variant the all-terms-present policy,
  which reads only the entry's \<open>searchTerms\<close>.
\<close>

theorem one_policy_per_checker:
  "(checkDeviceAvailability texts (Own d) \<longleftrightarrow>
      (\<exists>t \<in> set texts. sublist (name d) t \<and> \<not> sublist ''Out of stock'' t))
   \<and> (checkDeviceAvailability_terms texts d' \<longleftrightarrow>
      (\<exists>t \<in> set texts. \<forall>term \<in> set (searchTerms d'). sublist term t))"
  by (simp add: checkDeviceAvailability_Own checkDeviceAvailability_terms_iff)

theorem one_policy_per_checker_witness:
  "\<not> checkDeviceAvailability [''Steam Deck 256 GB Add to cart Out of stock'']
       (Own \<lparr>name = ''Steam Deck LCD 256GB'', priority = 0, sound = ''pushover''\<rparr>)
   \<and> \<not> (\<exists>t \<in> set [''Steam Deck 256 GB Add to cart Out of stock''].
          sublist ''Steam Deck LCD 256GB'' t \<and> \<not> sublist ''Out of stock'' t)
   \<and> checkDeviceAvailability_terms [''Steam Deck 256 GB Add to cart Out of stock'']
       \<lparr>name = ''Steam Deck LCD 256GB'', priority = 0, sound = ''pushover'',
        searchTerms = [''Steam Deck 256 GB'', ''Add to cart'']\<rparr>
   \<and> (\<exists>t \<in> set [''Steam Deck 256 GB Add to cart Out of stock''].
          sublist ''Steam Deck 256 GB'' t \<and> sublist ''Add to cart'' t)"
proof -
  have a: "\<not> checkDeviceAvailability [''Steam Deck 256 GB Add to cart Out of stock'']
       (Own \<lparr>name = ''Steam Deck LCD 256GB'', priority = 0, sound = ''pushover''\<rparr>)"
    by (simp add: checkDeviceAvailability_def device_name_def to_str_def)
  have b: "checkDeviceAvailability_terms [''Steam Deck 256 GB Add to cart Out of stock'']
       \<lparr>name = ''Steam Deck LCD 256GB'', priority = 0, sound = ''pushover'',
        searchTerms = [''Steam Deck 256 GB'', ''Add to cart'']\<rparr>"
    by (simp add: checkDeviceAvailability_terms_def)
  from one_policy_per_checker [of "[''Steam Deck 256 GB Add to cart Out of stock'']"
      "\<lparr>name = ''Steam Deck LCD 256GB'', priority = 0, sound = ''pushover''\<rparr>"
      "\<lparr>name = ''Steam Deck LCD 256GB'', priority = 0, sound = ''pushover'',
        searchTerms = [''Steam Deck 256 GB'', ''Add to cart'']\<rparr>"] a b
  show ?thesis by simp
qed

end
